theory Spec2Isabelle
  imports Main "HOL-Library.Word"
begin

section \<open>Decimal numbers\<close>

text \<open>What \<open>%d\<close> of \<open>fmt.Sprintf\<close> prints for a number that is not negative.\<close>

definition digitChar :: "nat \<Rightarrow> char" where
  "digitChar n = ''0123456789'' ! n"

fun showNat :: "nat \<Rightarrow> string" where
  "showNat n = (if n < 10 then [digitChar n] else showNat (n div 10) @ [digitChar (n mod 10)])"

declare showNat.simps [simp del]




section \<open>Errors\<close>

text \<open>
  Every error return of \<open>pkg/sql/create.go\<close> that the development below reaches is a
  constructor here; the payload is what the Go code formats into the message.
  \<open>Callee\<close> stands for an error handed up unchanged from a function of another
  package, \<open>Panic\<close> for a Go run-time panic.
\<close>

datatype DropBehavior = DropDefault | DropRestrict | DropCascade

datatype PartitionByType = PartitionByList | PartitionByRange

datatype error =
    ErrEmptyDatabaseName
  | UnsupportedTemplate string
  | UnsupportedEncoding string
  | UnsupportedCollation string
  | UnsupportedCType string
  | NoUniqueConstraint string
  | MultipleFKColumns
  | RequiresExistingIndex string
  | ColumnInMultipleFKs string
  | UnsupportedShorthand DropBehavior
  | InterleavedColumnsMustMatchParent
  | DeclaredColumnsMustMatchIndex
  | PartitionArity nat nat
  | DefaultCannotBeUsedWith PartitionByType
  | MaxValueCannotBeUsedWith PartitionByType
  | PlaceholdersNotSupported
  | Wrap error string
  | ColumnNotFoundForConstraint string string
  | IndexBeingDropped string
  | UserAlreadyExists string
  | UserDoesNotExist string
  | RowsAffectedByUserCreation int
  | Callee string
  | Panic string

text \<open>The message each error carries (the format strings of the Go code).\<close>

fun partitionByName :: "PartitionByType \<Rightarrow> string" where
  "partitionByName PartitionByList = ''LIST''"
| "partitionByName PartitionByRange = ''RANGE''"

fun errorMessage :: "error \<Rightarrow> string" where
  "errorMessage ErrEmptyDatabaseName = ''errEmptyDatabaseName''"
| "errorMessage (UnsupportedTemplate s) = ''unsupported template: '' @ s"
| "errorMessage (UnsupportedEncoding s) = ''unsupported encoding: '' @ s"
| "errorMessage (UnsupportedCollation s) = ''unsupported collation: '' @ s"
| "errorMessage (UnsupportedCType s) = ''unsupported character classification: '' @ s"
| "errorMessage (NoUniqueConstraint t) =
     ''there is no unique constraint matching given keys for referenced table '' @ t"
| "errorMessage MultipleFKColumns =
     ''columns cannot be used by multiple foreign key constraints''"
| "errorMessage (RequiresExistingIndex cols) =
     ''foreign key requires an existing index on columns '' @ cols"
| "errorMessage (ColumnInMultipleFKs c) =
     ''column \"'' @ c @ ''\" cannot be used by multiple foreign key constraints''"
| "errorMessage (UnsupportedShorthand b) =
     ''unsupported shorthand '' @ (case b of DropDefault \<Rightarrow> [] | DropRestrict \<Rightarrow> ''RESTRICT''
                                   | DropCascade \<Rightarrow> ''CASCADE'')"
| "errorMessage InterleavedColumnsMustMatchParent = ''interleaved columns must match parent''"
| "errorMessage DeclaredColumnsMustMatchIndex =
     ''declared columns must match index being interleaved''"
| "errorMessage (DefaultCannotBeUsedWith t) =
     ''DEFAULT cannot be used with PARTITION BY '' @ partitionByName t"
| "errorMessage (MaxValueCannotBeUsedWith t) =
     ''MAXVALUE cannot be used with PARTITION BY '' @ partitionByName t"
| "errorMessage PlaceholdersNotSupported = ''placeholders are not supported in PARTITION BY''"
| "errorMessage (Wrap err msg) = msg @ '': '' @ errorMessage err"
| "errorMessage (PartitionArity n m) =
     ''partition has '' @ showNat n @ '' columns but '' @ showNat m @ '' values were supplied''"
| "errorMessage (ColumnNotFoundForConstraint c e) =
     ''column \"'' @ c @ ''\" not found for constraint \"'' @ e @ ''\"''"
| "errorMessage (IndexBeingDropped i) =
     ''index \"'' @ i @ ''\" being dropped, try again later''"
| "errorMessage (UserAlreadyExists u) = ''user '' @ u @ '' already exists''"
| "errorMessage (UserDoesNotExist u) = ''user '' @ u @ '' does not exist''"
| "errorMessage (RowsAffectedByUserCreation n) =
     (if n < 0 then ''-'' else []) @ showNat (nat \<bar>n\<bar>) @
     '' rows affected by user creation; expected exactly one row affected''"
| "errorMessage (Callee s) = s"
| "errorMessage (Panic s) = s"

section \<open>CREATE DATABASE: the planner step\<close>

text \<open>
  \<open>strings.EqualFold\<close> compares under Unicode simple case folding. Every call in
  \<open>CreateDatabase\<close> has an ASCII literal without the letters k and s as its second
  argument (\<open>template0\<close>, \<open>UTF8\<close>, \<open>UTF-8\<close>, \<open>UNICODE\<close>); the only non-ASCII runes
  that fold to an ASCII letter are U+212A (to k) and U+017F (to s), so for these literals
  the comparison is the byte-wise comparison of the ASCII lower-case forms.
\<close>

definition toLower :: "char \<Rightarrow> char" where
  "toLower c = (case map_of (zip ''ABCDEFGHIJKLMNOPQRSTUVWXYZ''
                                 ''abcdefghijklmnopqrstuvwxyz'') c of
                  Some l \<Rightarrow> l
                | None \<Rightarrow> c)"

definition EqualFold :: "string \<Rightarrow> string \<Rightarrow> bool" where
  "EqualFold s t = (map toLower s = map toLower t)"

text \<open>The fields of \<open>tree.CreateDatabase\<close> that the planner reads.\<close>

record CreateDatabase =
  cd_IfNotExists :: bool
  cd_Name :: string
  cd_Template :: string
  cd_Encoding :: string
  cd_Collate :: string
  cd_CType :: string

datatype createDatabaseNode = CreateDatabaseNode (cdn_n: CreateDatabase)

text \<open>
  \<open>planner.CreateDatabase\<close>, lines 50 to 90. \<open>requireSuperUser\<close> is the planner's
  \<open>RequireSuperUser\<close> (not part of this file of the repository): given the name of the
  operation it returns an error, or none when the session's user is the root user.
\<close>

definition CreateDatabase ::
  "(string \<Rightarrow> error option) \<Rightarrow> CreateDatabase \<Rightarrow> error + createDatabaseNode" where
  "CreateDatabase requireSuperUser n =
    (if cd_Name n = [] then Inl ErrEmptyDatabaseName
     else if cd_Template n \<noteq> [] \<and> \<not> EqualFold (cd_Template n) ''template0''
       then Inl (UnsupportedTemplate (cd_Template n))
     else if cd_Encoding n \<noteq> [] \<and>
             \<not> (EqualFold (cd_Encoding n) ''UTF8'' \<or>
                EqualFold (cd_Encoding n) ''UTF-8'' \<or>
                EqualFold (cd_Encoding n) ''UNICODE'')
       then Inl (UnsupportedEncoding (cd_Encoding n))
     else if cd_Collate n \<noteq> [] \<and> cd_Collate n \<noteq> ''C'' \<and> cd_Collate n \<noteq> ''C.UTF-8''
       then Inl (UnsupportedCollation (cd_Collate n))
     else if cd_CType n \<noteq> [] \<and> cd_CType n \<noteq> ''C'' \<and> cd_CType n \<noteq> ''C.UTF-8''
       then Inl (UnsupportedCType (cd_CType n))
     else (case requireSuperUser ''CREATE DATABASE'' of
             Some err \<Rightarrow> Inl err
           | None \<Rightarrow> Inr (CreateDatabaseNode n)))"

section \<open>Descriptors\<close>

text \<open>
  The descriptor types are declared in package \<open>sqlbase\<close>; the records below hold the
  fields that \<open>create.go\<close> reads and writes. \<open>sqlbase.ID\<close>, \<open>ColumnID\<close>,
  \<open>IndexID\<close> and \<open>MutationID\<close> are \<open>uint32\<close>;
  \<open>ForeignKeyReference.SharedPrefixLen\<close> is an \<open>int32\<close> and
  \<open>InterleaveDescriptor_Ancestor.SharedPrefixLen\<close> a \<open>uint32\<close>.
\<close>

type_synonym ID = "32 word"
type_synonym ColumnID = "32 word"
type_synonym IndexID = "32 word"
type_synonym MutationID = "32 word"
type_synonym bytes = "8 word list"

datatype ConstraintValidity = Validated | Unvalidated

datatype Direction = ASC | DESC

datatype TableState = PUBLIC | ADD | DROP

record ColumnType =
  ct_SemanticType :: nat
  ct_Width :: int
  ct_Precision :: int

record ColumnDescriptor =
  col_Name :: string
  col_ID :: ColumnID
  col_Type :: ColumnType

record ForeignKeyReference =
  fk_Table :: ID
  fk_Index :: IndexID
  fk_Name :: string
  fk_Validity :: ConstraintValidity
  fk_SharedPrefixLen :: "32 word"

record Ancestor =
  anc_TableID :: ID
  anc_IndexID :: IndexID
  anc_SharedPrefixLen :: "32 word"

record IndexDescriptor =
  idx_Name :: string
  idx_ID :: IndexID
  idx_Unique :: bool
  idx_ColumnNames :: "string list"
  idx_ColumnDirections :: "Direction list"
  idx_ColumnIDs :: "ColumnID list"
  idx_ForeignKey :: ForeignKeyReference
  idx_ReferencedBy :: "ForeignKeyReference list"
  idx_Ancestors :: "Ancestor list"
  idx_InterleavedBy :: "ForeignKeyReference list"
  idx_StoreColumnNames :: "string list"

datatype MutationDirection = MutationADD | MutationDROP

record DescriptorMutation =
  mut_Index :: IndexDescriptor
  mut_Direction :: MutationDirection
  mut_MutationID :: MutationID

record CheckConstraint =
  ck_Expr :: string
  ck_Name :: string

record TableDescriptor =
  td_Name :: string
  td_ID :: ID
  td_State :: TableState
  td_Columns :: "ColumnDescriptor list"
  td_PrimaryIndex :: IndexDescriptor
  td_Indexes :: "IndexDescriptor list"
  td_Mutations :: "DescriptorMutation list"
  td_Checks :: "CheckConstraint list"

text \<open>The Go zero values of the two structs that the code builds by a literal.\<close>

definition zeroFK :: ForeignKeyReference where
  "zeroFK = \<lparr>fk_Table = 0, fk_Index = 0, fk_Name = [], fk_Validity = Validated,
            fk_SharedPrefixLen = 0\<rparr>"

definition zeroIndex :: IndexDescriptor where
  "zeroIndex = \<lparr>idx_Name = [], idx_ID = 0, idx_Unique = False, idx_ColumnNames = [],
               idx_ColumnDirections = [], idx_ColumnIDs = [], idx_ForeignKey = zeroFK,
               idx_ReferencedBy = [], idx_Ancestors = [], idx_InterleavedBy = [], idx_StoreColumnNames = []\<rparr>"

text \<open>
  A Go pointer to an index of a table descriptor: \<open>&t.PrimaryIndex\<close>,
  \<open>&t.Indexes[i]\<close>, or the index of the mutation \<open>t.Mutations[k]\<close>. Reading and
  writing through the pointer reads and writes the descriptor.
\<close>

datatype IndexRef = PrimaryIndexRef | IndexesRef nat | MutationRef nat

fun getIndex :: "TableDescriptor \<Rightarrow> IndexRef \<Rightarrow> IndexDescriptor" where
  "getIndex t PrimaryIndexRef = td_PrimaryIndex t"
| "getIndex t (IndexesRef i) = td_Indexes t ! i"
| "getIndex t (MutationRef k) = mut_Index (td_Mutations t ! k)"

fun putIndex :: "TableDescriptor \<Rightarrow> IndexRef \<Rightarrow> IndexDescriptor \<Rightarrow> TableDescriptor" where
  "putIndex t PrimaryIndexRef x = t\<lparr>td_PrimaryIndex := x\<rparr>"
| "putIndex t (IndexesRef i) x = t\<lparr>td_Indexes := (td_Indexes t)[i := x]\<rparr>"
| "putIndex t (MutationRef k) x =
     t\<lparr>td_Mutations := (td_Mutations t)[k := (td_Mutations t ! k)\<lparr>mut_Index := x\<rparr>]\<rparr>"

section \<open>Foreign keys: choosing the target and the source index\<close>

text \<open>
  \<open>matchesIndex\<close>, lines 871 to 884. \<open>exact\<close> is the \<open>indexMatch\<close> flag:
  \<open>matchExact = true\<close>, \<open>matchPrefix = false\<close>. The loop runs over the positions of
  \<open>cols\<close>; the length test before it keeps \<open>idx.ColumnIDs[i]\<close> in range.
\<close>

fun matchesLoop :: "ColumnDescriptor list \<Rightarrow> ColumnID list \<Rightarrow> bool" where
  "matchesLoop [] ids = True"
| "matchesLoop (c # cs) [] = False"
| "matchesLoop (c # cs) (i # ids) = (if col_ID c \<noteq> i then False else matchesLoop cs ids)"

definition matchExact :: bool where "matchExact = True"
definition matchPrefix :: bool where "matchPrefix = False"

definition matchesIndex :: "ColumnDescriptor list \<Rightarrow> IndexDescriptor \<Rightarrow> bool \<Rightarrow> bool" where
  "matchesIndex cols idx exact =
    (if length cols > length (idx_ColumnIDs idx) \<or>
        (exact \<and> length cols \<noteq> length (idx_ColumnIDs idx))
     then False
     else matchesLoop cols (idx_ColumnIDs idx))"

text \<open>
  The target index of \<open>resolveFK\<close>, lines 989 to 1009: the primary index if it matches
  exactly, else the first index of \<open>target.Indexes\<close> that is unique and matches exactly,
  else the error. \<open>findUniqueFrom i\<close> is the \<open>for i, idx := range target.Indexes\<close> loop
  from position \<open>i\<close> on; the result is the pointer \<open>targetIdx\<close>.
\<close>

fun findUniqueFrom :: "ColumnDescriptor list \<Rightarrow> nat \<Rightarrow> IndexDescriptor list \<Rightarrow> nat option" where
  "findUniqueFrom targetCols i [] = None"
| "findUniqueFrom targetCols i (idx # rest) =
     (if idx_Unique idx \<and> matchesIndex targetCols idx matchExact then Some i
      else findUniqueFrom targetCols (Suc i) rest)"

definition findTargetIdx ::
  "string \<Rightarrow> ColumnDescriptor list \<Rightarrow> TableDescriptor \<Rightarrow> error + IndexRef" where
  "findTargetIdx targetTable targetCols target =
    (if matchesIndex targetCols (td_PrimaryIndex target) matchExact then Inr PrimaryIndexRef
     else (case findUniqueFrom targetCols 0 (td_Indexes target) of
             Some i \<Rightarrow> Inr (IndexesRef i)
           | None \<Rightarrow> Inl (NoUniqueConstraint targetTable)))"

text \<open>\<open>colNames\<close>, lines 1112 to 1123: the column names, quoted, in parentheses.\<close>

fun colNamesLoop :: "nat \<Rightarrow> ColumnDescriptor list \<Rightarrow> string" where
  "colNamesLoop i [] = []"
| "colNamesLoop i (c # cs) =
     (if i \<noteq> 0 then ''\", \"'' else []) @ col_Name c @ colNamesLoop (Suc i) cs"

definition colNames :: "ColumnDescriptor list \<Rightarrow> string" where
  "colNames cols = ''(\"'' @ colNamesLoop 0 cols @ ''\")''"

text \<open>
  \<open>addIndexForFK\<close>, lines 1075 to 1109. \<open>AddIndex\<close> and \<open>AllocateIDs\<close> are methods of
  \<open>sqlbase.TableDescriptor\<close> defined outside this file; they are parameters here, each
  returning the updated descriptor or an error. \<open>tbl.Indexes[len(tbl.Indexes)-1]\<close>
  panics on an empty list, and the sanity check panics when the index added does not
  match.
\<close>

definition autoIndex ::
  "TableDescriptor \<Rightarrow> ColumnDescriptor list \<Rightarrow> string \<Rightarrow> ForeignKeyReference \<Rightarrow> IndexDescriptor" where
  "autoIndex tbl srcCols constraintName ref =
     zeroIndex\<lparr>idx_Name := td_Name tbl @ ''_auto_index_'' @ constraintName,
               idx_ColumnNames := map col_Name srcCols,
               idx_ColumnDirections := map (\<lambda>c. ASC) srcCols,
               idx_ForeignKey := ref\<rparr>"

definition addIndexForFK ::
  "(TableDescriptor \<Rightarrow> IndexDescriptor \<Rightarrow> bool \<Rightarrow> error + TableDescriptor) \<Rightarrow>
   (TableDescriptor \<Rightarrow> error + TableDescriptor) \<Rightarrow>
   TableDescriptor \<Rightarrow> ColumnDescriptor list \<Rightarrow> string \<Rightarrow> ForeignKeyReference \<Rightarrow>
   error + (TableDescriptor \<times> IndexID)" where
  "addIndexForFK AddIndex AllocateIDs tbl srcCols constraintName ref =
    (case AddIndex tbl (autoIndex tbl srcCols constraintName ref) False of
       Inl err \<Rightarrow> Inl err
     | Inr tbl1 \<Rightarrow>
        (case AllocateIDs tbl1 of
           Inl err \<Rightarrow> Inl err
         | Inr tbl2 \<Rightarrow>
            (if td_Indexes tbl2 = [] then Inl (Panic ''index out of range'')
             else let added = last (td_Indexes tbl2) in
               if \<not> matchesIndex srcCols added matchPrefix
               then Inl (Panic ''no matching index and auto-generated index failed to match'')
               else Inr (tbl2, idx_ID added))))"

text \<open>
  The source index of \<open>resolveFK\<close>, lines 1035 to 1068. \<open>IsSet\<close> is the method of
  \<open>sqlbase.ForeignKeyReference\<close> (defined outside this file) that tells whether a
  reference is present. The result is the table with the reference stored on the source
  index, and the index id that goes into the back-reference. \<open>findPrefixFrom i\<close> is the
  \<open>for i := range tbl.Indexes\<close> loop from position \<open>i\<close> on: it stops at the first index
  that matches.
\<close>

fun findPrefixFrom :: "ColumnDescriptor list \<Rightarrow> nat \<Rightarrow> IndexDescriptor list \<Rightarrow> nat option" where
  "findPrefixFrom srcCols i [] = None"
| "findPrefixFrom srcCols i (idx # rest) =
     (if matchesIndex srcCols idx matchPrefix then Some i
      else findPrefixFrom srcCols (Suc i) rest)"

definition findSourceIdx ::
  "(ForeignKeyReference \<Rightarrow> bool) \<Rightarrow>
   (TableDescriptor \<Rightarrow> IndexDescriptor \<Rightarrow> bool \<Rightarrow> error + TableDescriptor) \<Rightarrow>
   (TableDescriptor \<Rightarrow> error + TableDescriptor) \<Rightarrow>
   TableDescriptor \<Rightarrow> ColumnDescriptor list \<Rightarrow> string \<Rightarrow> ForeignKeyReference \<Rightarrow>
   ConstraintValidity \<Rightarrow> error + (TableDescriptor \<times> IndexID)" where
  "findSourceIdx IsSet AddIndex AllocateIDs tbl srcCols constraintName ref mode =
    (if matchesIndex srcCols (td_PrimaryIndex tbl) matchPrefix then
       (if IsSet (idx_ForeignKey (td_PrimaryIndex tbl)) then Inl MultipleFKColumns
        else Inr (tbl\<lparr>td_PrimaryIndex := (td_PrimaryIndex tbl)\<lparr>idx_ForeignKey := ref\<rparr>\<rparr>,
                  idx_ID (td_PrimaryIndex tbl)))
     else
       (case findPrefixFrom srcCols 0 (td_Indexes tbl) of
          Some i \<Rightarrow>
            (if IsSet (idx_ForeignKey (td_Indexes tbl ! i)) then Inl MultipleFKColumns
             else Inr (tbl\<lparr>td_Indexes :=
                             (td_Indexes tbl)[i := (td_Indexes tbl ! i)\<lparr>idx_ForeignKey := ref\<rparr>]\<rparr>,
                       idx_ID (td_Indexes tbl ! i)))
        | None \<Rightarrow>
            (if mode = Unvalidated then Inl (RequiresExistingIndex (colNames srcCols))
             else addIndexForFK AddIndex AllocateIDs tbl srcCols constraintName ref)))"

text \<open>
  The check at the end of \<open>MakeTableDesc\<close>, lines 1699 to 1716. \<open>colsInFKs\<close> is the
  Go map used as a set. \<open>fkColsLoop\<close> is the inner \<open>for i := 0; i < numCols; i++\<close>
  loop, its last argument the number of rounds left; \<open>idx.ColumnIDs[i]\<close> and
  \<open>idx.ColumnNames[i]\<close> panic out of range. The comparison
  \<open>SharedPrefixLen > 0\<close> is signed.
\<close>

fun fkColsLoop ::
  "ColumnID set \<Rightarrow> IndexDescriptor \<Rightarrow> nat \<Rightarrow> nat \<Rightarrow> error + ColumnID set" where
  "fkColsLoop colsInFKs idx i 0 = Inr colsInFKs"
| "fkColsLoop colsInFKs idx i (Suc n) =
     (if i \<ge> length (idx_ColumnIDs idx) then Inl (Panic ''index out of range'')
      else if idx_ColumnIDs idx ! i \<in> colsInFKs then
        (if i \<ge> length (idx_ColumnNames idx) then Inl (Panic ''index out of range'')
         else Inl (ColumnInMultipleFKs (idx_ColumnNames idx ! i)))
      else fkColsLoop (insert (idx_ColumnIDs idx ! i) colsInFKs) idx (Suc i) n)"

definition fkNumCols :: "IndexDescriptor \<Rightarrow> nat" where
  "fkNumCols idx =
    (if 0 < sint (fk_SharedPrefixLen (idx_ForeignKey idx))
     then nat (sint (fk_SharedPrefixLen (idx_ForeignKey idx)))
     else length (idx_ColumnIDs idx))"

fun checkColsInFKs ::
  "(ForeignKeyReference \<Rightarrow> bool) \<Rightarrow> ColumnID set \<Rightarrow> IndexDescriptor list \<Rightarrow> error + ColumnID set" where
  "checkColsInFKs IsSet colsInFKs [] = Inr colsInFKs"
| "checkColsInFKs IsSet colsInFKs (idx # rest) =
     (if IsSet (idx_ForeignKey idx) then
        (case fkColsLoop colsInFKs idx 0 (fkNumCols idx) of
           Inl err \<Rightarrow> Inl err
         | Inr colsInFKs' \<Rightarrow> checkColsInFKs IsSet colsInFKs' rest)
      else checkColsInFKs IsSet colsInFKs rest)"

text \<open>
  The end of \<open>MakeTableDesc\<close>, lines 1699 to 1718, on the descriptor as the fourth pass
  left it: the check over \<open>desc.Indexes\<close>, then \<open>return desc, desc.AllocateIDs()\<close>.
\<close>

definition finishTableDesc ::
  "(ForeignKeyReference \<Rightarrow> bool) \<Rightarrow> (TableDescriptor \<Rightarrow> error + TableDescriptor) \<Rightarrow>
   TableDescriptor \<Rightarrow> error + TableDescriptor" where
  "finishTableDesc IsSet AllocateIDs desc =
    (case checkColsInFKs IsSet {} (td_Indexes desc) of
       Inl err \<Rightarrow> Inl err
     | Inr _ \<Rightarrow> AllocateIDs desc)"

section \<open>Vocabulary of the properties, and concrete descriptors\<close>

text \<open>
  A UTF-8 alias, an accepted collation or ctype, and a result that is not an error.
\<close>

definition utf8Alias :: "string \<Rightarrow> bool" where
  "utf8Alias enc = (EqualFold enc ''UTF8'' \<or> EqualFold enc ''UTF-8'' \<or> EqualFold enc ''UNICODE'')"

definition cLocale :: "string \<Rightarrow> bool" where
  "cLocale s = (s = ''C'' \<or> s = ''C.UTF-8'')"

definition isOk :: "error + 'a \<Rightarrow> bool" where
  "isOk r = (case r of Inl _ \<Rightarrow> False | Inr _ \<Rightarrow> True)"

text \<open>
  An index matches a column list exactly when its column ids are the ids of the columns;
  it matches as a prefix when the ids of the columns are an initial segment of its
  column ids.
\<close>

definition exactMatch :: "ColumnDescriptor list \<Rightarrow> IndexDescriptor \<Rightarrow> bool" where
  "exactMatch cols idx = (idx_ColumnIDs idx = map col_ID cols)"

definition prefixMatch :: "ColumnDescriptor list \<Rightarrow> IndexDescriptor \<Rightarrow> bool" where
  "prefixMatch cols idx =
     (length cols \<le> length (idx_ColumnIDs idx) \<and>
      take (length cols) (idx_ColumnIDs idx) = map col_ID cols)"

text \<open>
  The columns that the check at the end of \<open>MakeTableDesc\<close> counts for the foreign key
  of an index: the first \<open>SharedPrefixLen\<close> ones if that is positive, else all.
\<close>

definition fkColumns :: "IndexDescriptor \<Rightarrow> ColumnID list" where
  "fkColumns idx = take (fkNumCols idx) (idx_ColumnIDs idx)"

text \<open>\<open>firstFrom P i xs\<close>: the position, counted from \<open>i\<close>, of the first element with \<open>P\<close>.\<close>

fun firstFrom :: "('a \<Rightarrow> bool) \<Rightarrow> nat \<Rightarrow> 'a list \<Rightarrow> nat option" where
  "firstFrom P i [] = None"
| "firstFrom P i (x # xs) = (if P x then Some i else firstFrom P (Suc i) xs)"

text \<open>
  Concrete columns, indexes, tables and references for the examples. For the
  parameters: \<open>fkIsSet\<close> takes a reference as present when its table id is not zero,
  and \<open>appendIndex\<close> adds a secondary index at the end of \<open>Indexes\<close>.
\<close>

definition mkCol :: "string \<Rightarrow> ColumnID \<Rightarrow> ColumnDescriptor" where
  "mkCol n i = \<lparr>col_Name = n, col_ID = i,
               col_Type = \<lparr>ct_SemanticType = 1, ct_Width = 0, ct_Precision = 0\<rparr>\<rparr>"

definition mkIndex :: "string \<Rightarrow> IndexID \<Rightarrow> bool \<Rightarrow> string list \<Rightarrow> ColumnID list \<Rightarrow> IndexDescriptor" where
  "mkIndex n i u names ids =
     zeroIndex\<lparr>idx_Name := n, idx_ID := i, idx_Unique := u, idx_ColumnNames := names,
               idx_ColumnDirections := map (\<lambda>c. ASC) names, idx_ColumnIDs := ids\<rparr>"

definition mkTable :: "string \<Rightarrow> ID \<Rightarrow> ColumnDescriptor list \<Rightarrow> IndexDescriptor \<Rightarrow> IndexDescriptor list \<Rightarrow> TableDescriptor" where
  "mkTable n i cols p xs =
     \<lparr>td_Name = n, td_ID = i, td_State = PUBLIC, td_Columns = cols, td_PrimaryIndex = p,
      td_Indexes = xs, td_Mutations = [], td_Checks = []\<rparr>"

definition mkFK :: "ID \<Rightarrow> IndexID \<Rightarrow> string \<Rightarrow> nat \<Rightarrow> ForeignKeyReference" where
  "mkFK t i n k = \<lparr>fk_Table = t, fk_Index = i, fk_Name = n, fk_Validity = Validated,
                  fk_SharedPrefixLen = of_nat k\<rparr>"

definition fkIsSet :: "ForeignKeyReference \<Rightarrow> bool" where
  "fkIsSet f = (fk_Table f \<noteq> 0)"

definition appendIndex :: "TableDescriptor \<Rightarrow> IndexDescriptor \<Rightarrow> bool \<Rightarrow> error + TableDescriptor" where
  "appendIndex t idx primary = Inr (t\<lparr>td_Indexes := td_Indexes t @ [idx]\<rparr>)"

text \<open>
  A stand-in for \<open>AllocateIDs\<close> in the examples: an index that has no column ids yet
  gets the id \<open>i\<close> and the column ids \<open>ids\<close>.
\<close>

definition allocateAs :: "IndexID \<Rightarrow> ColumnID list \<Rightarrow> TableDescriptor \<Rightarrow> error + TableDescriptor" where
  "allocateAs i ids t =
     Inr (t\<lparr>td_Indexes := map (\<lambda>x. if idx_ColumnIDs x = [] then x\<lparr>idx_ID := i, idx_ColumnIDs := ids\<rparr> else x)
                              (td_Indexes t)\<rparr>)"

text \<open>
  The table of \<open>CREATE TABLE t (a INT PRIMARY KEY, b INT, INDEX (a, b), ...)\<close> after
  \<open>AllocateIDs\<close>, and the same table once a first foreign key over \<open>(a)\<close> is stored
  on its primary index.
\<close>

definition tblT :: TableDescriptor where
  "tblT = mkTable ''t'' 60 [mkCol ''a'' 1, mkCol ''b'' 2]
            (mkIndex ''primary'' 1 True [''a''] [1])
            [mkIndex ''t_a_b_idx'' 2 False [''a'', ''b''] [1, 2]]"

definition tblT1 :: TableDescriptor where
  "tblT1 = tblT\<lparr>td_PrimaryIndex := (td_PrimaryIndex tblT)\<lparr>idx_ForeignKey := mkFK 50 1 ''fk1'' 1\<rparr>\<rparr>"

definition tblT2 :: TableDescriptor where
  "tblT2 = tblT1\<lparr>td_Indexes := [(td_Indexes tblT ! 0)\<lparr>idx_ForeignKey := mkFK 51 1 ''fk2'' 2\<rparr>]\<rparr>"

section \<open>Interleaving\<close>

text \<open>The fields of \<open>tree.InterleaveDef\<close>.\<close>

record InterleaveDef =
  il_Parent :: string
  il_Fields :: "string list"
  il_DropBehavior :: DropBehavior

text \<open>
  The loop of \<open>addInterleave\<close>, lines 1181 to 1196:
  \<open>for i, targetColID := range parentIndex.ColumnIDs\<close>, from position \<open>i\<close> on.
  \<open>FindColumnByID\<close> is the method of \<open>sqlbase.TableDescriptor\<close>, defined outside this
  file. The two length checks before the loop keep \<open>index.ColumnIDs[i]\<close> and
  \<open>interleave.Fields[i]\<close> in range; \<open>ColumnDirections[i]\<close> is read only when the
  types are equal (\<open>||\<close> evaluates its right operand only then) and panics out of
  range. The result is the error, if any.
\<close>

fun interleaveLoop ::
  "(TableDescriptor \<Rightarrow> ColumnID \<Rightarrow> error + ColumnDescriptor) \<Rightarrow>
   TableDescriptor \<Rightarrow> IndexDescriptor \<Rightarrow> TableDescriptor \<Rightarrow> IndexDescriptor \<Rightarrow>
   string list \<Rightarrow> nat \<Rightarrow> ColumnID list \<Rightarrow> error option" where
  "interleaveLoop FindColumnByID parentTable parentIndex desc index flds i [] = None"
| "interleaveLoop FindColumnByID parentTable parentIndex desc index flds i (targetColID # rest) =
    (case FindColumnByID parentTable targetColID of
       Inl err \<Rightarrow> Some err
     | Inr targetCol \<Rightarrow>
        (case FindColumnByID desc (idx_ColumnIDs index ! i) of
           Inl err \<Rightarrow> Some err
         | Inr col \<Rightarrow>
            if flds ! i \<noteq> col_Name col then Some DeclaredColumnsMustMatchIndex
            else if col_Type col \<noteq> col_Type targetCol then Some InterleavedColumnsMustMatchParent
            else if i \<ge> length (idx_ColumnDirections index) \<or>
                    i \<ge> length (idx_ColumnDirections parentIndex)
              then Some (Panic ''index out of range'')
            else if idx_ColumnDirections index ! i \<noteq> idx_ColumnDirections parentIndex ! i
              then Some InterleavedColumnsMustMatchParent
            else interleaveLoop FindColumnByID parentTable parentIndex desc index flds
                   (Suc i) rest))"

text \<open>
  \<open>addInterleave\<close>, lines 1150 to 1212. \<open>NormalizeWithDatabaseName\<close> and
  \<open>MustGetTableDesc\<close> (called with \<open>allowAdding = true\<close>) are defined outside this
  file. \<open>index\<close> is a pointer into \<open>desc\<close>. The new ancestor starts with
  \<open>uint32(len(parentIndex.ColumnIDs))\<close>, from which the loop over \<open>ancestorPrefix\<close>
  subtracts, in \<open>uint32\<close> arithmetic.
\<close>

definition addInterleave ::
  "(string \<Rightarrow> string \<Rightarrow> error + string) \<Rightarrow>
   (string \<Rightarrow> bool \<Rightarrow> error + TableDescriptor) \<Rightarrow>
   (TableDescriptor \<Rightarrow> ColumnID \<Rightarrow> error + ColumnDescriptor) \<Rightarrow>
   TableDescriptor \<Rightarrow> IndexRef \<Rightarrow> InterleaveDef \<Rightarrow> string \<Rightarrow> error + TableDescriptor" where
  "addInterleave NormalizeWithDatabaseName MustGetTableDesc FindColumnByID
     desc index interleave sessionDB =
    (if il_DropBehavior interleave \<noteq> DropDefault
       then Inl (UnsupportedShorthand (il_DropBehavior interleave))
     else case NormalizeWithDatabaseName (il_Parent interleave) sessionDB of
       Inl err \<Rightarrow> Inl err
     | Inr tn \<Rightarrow>
        (case MustGetTableDesc tn True of
           Inl err \<Rightarrow> Inl err
         | Inr parentTable \<Rightarrow>
            let parentIndex = td_PrimaryIndex parentTable in
            if length (il_Fields interleave) \<noteq> length (idx_ColumnIDs parentIndex)
              then Inl InterleavedColumnsMustMatchParent
            else if length (il_Fields interleave) > length (idx_ColumnIDs (getIndex desc index))
              then Inl DeclaredColumnsMustMatchIndex
            else case interleaveLoop FindColumnByID parentTable parentIndex desc
                        (getIndex desc index) (il_Fields interleave) 0
                        (idx_ColumnIDs parentIndex) of
              Some err \<Rightarrow> Inl err
            | None \<Rightarrow>
               let ancestorPrefix = idx_Ancestors parentIndex;
                   intl = \<lparr>anc_TableID = td_ID parentTable,
                           anc_IndexID = idx_ID parentIndex,
                           anc_SharedPrefixLen = of_nat (length (idx_ColumnIDs parentIndex))\<rparr>;
                   intl' = foldl (\<lambda>a ancestor.
                              a\<lparr>anc_SharedPrefixLen :=
                                   anc_SharedPrefixLen a - anc_SharedPrefixLen ancestor\<rparr>)
                            intl ancestorPrefix
               in Inr ((putIndex desc index
                         ((getIndex desc index)\<lparr>idx_Ancestors := ancestorPrefix @ [intl']\<rparr>))
                       \<lparr>td_State := ADD\<rparr>)))"

text \<open>A pointer to an index is valid in a descriptor.\<close>

fun validRef :: "TableDescriptor \<Rightarrow> IndexRef \<Rightarrow> bool" where
  "validRef t PrimaryIndexRef = True"
| "validRef t (IndexesRef i) = (i < length (td_Indexes t))"
| "validRef t (MutationRef k) = (k < length (td_Mutations t))"

text \<open>
  Stand-ins for the outside functions in the examples: \<open>FindColumnByID\<close> as a search of
  \<open>Columns\<close>, the name normalisation as the identity, and a catalog of tables by name.
\<close>

definition findColumn :: "TableDescriptor \<Rightarrow> ColumnID \<Rightarrow> error + ColumnDescriptor" where
  "findColumn t c = (case find (\<lambda>x. col_ID x = c) (td_Columns t) of
                       Some x \<Rightarrow> Inr x
                     | None \<Rightarrow> Inl (Callee ''column-id does not exist''))"

definition sameName :: "string \<Rightarrow> string \<Rightarrow> error + string" where
  "sameName n db = Inr n"

definition catalog :: "TableDescriptor list \<Rightarrow> string \<Rightarrow> bool \<Rightarrow> error + TableDescriptor" where
  "catalog ts n allowAdding = (case find (\<lambda>t. td_Name t = n) ts of
                                 Some t \<Rightarrow> Inr t
                               | None \<Rightarrow> Inl (Callee ''table does not exist''))"

text \<open>
  Scenario S3: \<open>parent\<close> with \<open>PRIMARY KEY (pid)\<close>, and
  \<open>child (pid INT, cid INT, PRIMARY KEY (pid, cid)) INTERLEAVE IN PARENT parent (pid)\<close>.
\<close>

definition parentT :: TableDescriptor where
  "parentT = mkTable ''parent'' 51 [mkCol ''pid'' 1] (mkIndex ''primary'' 1 True [''pid''] [1]) []"

definition childT :: TableDescriptor where
  "childT = mkTable ''child'' 52 [mkCol ''pid'' 1, mkCol ''cid'' 2]
              (mkIndex ''primary'' 1 True [''pid'', ''cid''] [1, 2]) []"

section \<open>Expressions\<close>

text \<open>
  The expression nodes of package \<open>tree\<close> that \<open>create.go\<close> tells apart:
  \<open>DefaultVal\<close>, \<open>MaxVal\<close>, \<open>*Placeholder\<close>, \<open>*ParenExpr\<close>, \<open>*Tuple\<close>, the
  variable names (\<open>VarName\<close>), and \<open>dummyColumnItem\<close>, which this file declares
  (lines 1746 to 1780) with the datum type it carries. \<open>OtherExpr\<close> is any other node,
  with its operator or literal and its operands.
\<close>

type_synonym DatumType = string

datatype Expr =
    DefaultVal
  | MaxVal
  | Placeholder string
  | ParenExpr Expr
  | Tuple "Expr list"
  | VarName string
  | DummyColumnItem DatumType
  | OtherExpr string "Expr list"

text \<open>
  Modelled from the spec: \<open>tree.StripParens\<close> is defined outside this file; the
  specification says the tuple is taken "after stripping parens", so it removes the
  enclosing \<open>ParenExpr\<close> nodes.
\<close>

fun StripParens :: "Expr \<Rightarrow> Expr" where
  "StripParens (ParenExpr e) = StripParens e"
| "StripParens e = e"

section \<open>Partition tuples\<close>






section \<open>Check constraints\<close>

text \<open>\<open>tree.CheckConstraintTableDef\<close>.\<close>

record CheckConstraintTableDef =
  cc_Name :: string
  cc_Expr :: Expr













text \<open>The part of a generated name after \<open>check\<close>: \<open>_{col}\<close> for each column name.\<close>

definition columnSuffix :: "string list \<Rightarrow> string" where
  "columnSuffix cols = concat (map (\<lambda>c. ''_'' @ c) cols)"

section \<open>CREATE USER and ALTER USER ... WITH PASSWORD\<close>

text \<open>
  The fields of \<open>createUserNode\<close> and \<open>alterUserSetPasswordNode\<close> that \<open>Start\<close> reads
  and writes. \<open>rowsAffected\<close> is a Go \<open>int\<close>.
\<close>

record createUserNode =
  cu_ifNotExists :: bool
  cu_rowsAffected :: int

record alterUserSetPasswordNode =
  au_ifExists :: bool
  au_rowsAffected :: int

text \<open>
  \<open>createUserNode.Start\<close>, lines 344 to 382. \<open>resolved\<close> is the result of
  \<open>n.userAuthInfo.resolve()\<close>, the normalised user name and the hashed password;
  \<open>execute\<close> is \<open>ExecuteStatementInTransaction\<close> of the internal executor on the
  \<open>INSERT\<close> statement with these two arguments, returning the row count and the
  error, if any; \<open>IsUniquenessConstraintViolationError\<close> is the predicate of package
  \<open>sqlbase\<close>. The result is the error, if any, and the node with its row count.
\<close>

definition createUserNode_Start ::
  "(error \<Rightarrow> bool) \<Rightarrow> (string \<Rightarrow> bytes \<Rightarrow> int \<times> error option) \<Rightarrow>
   error + (string \<times> bytes) \<Rightarrow> createUserNode \<Rightarrow> error option \<times> createUserNode" where
  "createUserNode_Start IsUniquenessConstraintViolationError execute resolved n =
    (case resolved of
       Inl err \<Rightarrow> (Some err, n)
     | Inr (normalizedUsername, hashedPassword) \<Rightarrow>
        (case execute normalizedUsername hashedPassword of
           (rows, Some err) \<Rightarrow>
             if IsUniquenessConstraintViolationError err then
               (if cu_ifNotExists n then (None, n\<lparr>cu_rowsAffected := 0\<rparr>)
                else (Some (UserAlreadyExists normalizedUsername), n\<lparr>cu_rowsAffected := rows\<rparr>))
             else (Some err, n\<lparr>cu_rowsAffected := rows\<rparr>)
         | (rows, None) \<Rightarrow>
             if rows \<noteq> 1 then (Some (RowsAffectedByUserCreation rows), n\<lparr>cu_rowsAffected := rows\<rparr>)
             else (None, n\<lparr>cu_rowsAffected := rows\<rparr>)))"

text \<open>
  \<open>alterUserSetPasswordNode.Start\<close>, lines 423 to 445, with \<open>execute\<close> the internal
  executor on the \<open>UPDATE\<close> statement. The last line returns \<open>err\<close>, which is nil
  there.
\<close>

definition alterUserSetPasswordNode_Start ::
  "(string \<Rightarrow> bytes \<Rightarrow> int \<times> error option) \<Rightarrow>
   error + (string \<times> bytes) \<Rightarrow> alterUserSetPasswordNode \<Rightarrow>
   error option \<times> alterUserSetPasswordNode" where
  "alterUserSetPasswordNode_Start execute resolved n =
    (case resolved of
       Inl err \<Rightarrow> (Some err, n)
     | Inr (normalizedUsername, hashedPassword) \<Rightarrow>
        (case execute normalizedUsername hashedPassword of
           (rows, Some err) \<Rightarrow> (Some err, n\<lparr>au_rowsAffected := rows\<rparr>)
         | (rows, None) \<Rightarrow>
             if rows = 0 \<and> \<not> au_ifExists n
               then (Some (UserDoesNotExist normalizedUsername), n\<lparr>au_rowsAffected := rows\<rparr>)
             else (None, n\<lparr>au_rowsAffected := rows\<rparr>)))"

section \<open>Hoisting column constraints\<close>

text \<open>
  The table definitions of package \<open>tree\<close>, with the fields that \<open>HoistConstraints\<close>
  reads and writes. \<open>ref_Table\<close> is the \<open>NormalizableTableName\<close> of an inline
  \<open>REFERENCES\<close>, \<open>None\<close> for its zero value.
\<close>

record ReferenceActions =
  ra_Delete :: nat
  ra_Update :: nat

record ColumnTableDefCheckExpr =
  ce_Expr :: Expr
  ce_ConstraintName :: string

record ColumnReferences =
  ref_Table :: "string option"
  ref_Col :: string
  ref_ConstraintName :: string
  ref_Actions :: ReferenceActions

record ColumnTableDef =
  ctd_Name :: string
  ctd_Type :: string
  ctd_PrimaryKey :: bool
  ctd_CheckExprs :: "ColumnTableDefCheckExpr list"
  ctd_References :: ColumnReferences

record ForeignKeyConstraintTableDef =
  fkd_Name :: string
  fkd_Table :: "string option"
  fkd_FromCols :: "string list"
  fkd_ToCols :: "string list"
  fkd_Actions :: ReferenceActions

datatype TableDef =
    ColumnDef ColumnTableDef
  | IndexDef string "string list"
  | UniqueConstraintDef string "string list" bool
  | CheckConstraintDef CheckConstraintTableDef
  | ForeignKeyConstraintDef ForeignKeyConstraintTableDef
  | FamilyDef string "string list"

record CreateTable =
  ct_Table :: string
  ct_IfNotExists :: bool
  ct_Defs :: "TableDef list"

text \<open>
  Modelled from the spec: \<open>ColumnTableDef.HasFKConstraint\<close> is defined in package
  \<open>tree\<close>; the specification says a column has an inline \<open>REFERENCES\<close> until "the
  inline \<open>References.Table\<close> on the column is then cleared", so the column has a foreign
  key constraint when \<open>References.Table\<close> is set.
\<close>

definition HasFKConstraint :: "ColumnTableDef \<Rightarrow> bool" where
  "HasFKConstraint col = (ref_Table (ctd_References col) \<noteq> None)"

text \<open>
  The body of the loop of \<open>HoistConstraints\<close> for one column, lines 695 to 717: the
  definitions appended to \<open>n.Defs\<close>, and the column as the writes through the pointer
  \<open>col\<close> leave it.
\<close>

definition hoistColumn :: "ColumnTableDef \<Rightarrow> ColumnTableDef \<times> TableDef list" where
  "hoistColumn col =
    (let checks = map (\<lambda>checkExpr.
                         CheckConstraintDef \<lparr>cc_Name = ce_ConstraintName checkExpr,
                                             cc_Expr = ce_Expr checkExpr\<rparr>)
                      (ctd_CheckExprs col);
         col1 = col\<lparr>ctd_CheckExprs := []\<rparr>
     in if HasFKConstraint col1 then
          (let targetCol = (if ref_Col (ctd_References col1) \<noteq> []
                            then [ref_Col (ctd_References col1)] else [])
           in (col1\<lparr>ctd_References := (ctd_References col1)\<lparr>ref_Table := None\<rparr>\<rparr>,
               checks @
               [ForeignKeyConstraintDef
                  \<lparr>fkd_Name = ref_ConstraintName (ctd_References col1),
                   fkd_Table = ref_Table (ctd_References col1),
                   fkd_FromCols = [ctd_Name col1],
                   fkd_ToCols = targetCol,
                   fkd_Actions = ref_Actions (ctd_References col1)\<rparr>]))
        else (col1, checks))"

text \<open>
  The loop \<open>for _, d := range n.Defs\<close>, lines 693 to 719. The range expression is
  evaluated once, so the loop runs over the definitions present at its start; the
  columns are pointers, so the writes to a column are seen in \<open>n.Defs\<close>; the appended
  definitions go to the end. The result is the definitions visited, as the loop leaves
  them, and the definitions appended.
\<close>

fun hoistLoop :: "TableDef list \<Rightarrow> TableDef list \<times> TableDef list" where
  "hoistLoop [] = ([], [])"
| "hoistLoop (ColumnDef col # rest) =
    (let (col', appended) = hoistColumn col;
         (rest', appended') = hoistLoop rest
     in (ColumnDef col' # rest', appended @ appended'))"
| "hoistLoop (d # rest) =
    (let (rest', appended') = hoistLoop rest in (d # rest', appended'))"

definition HoistConstraints :: "CreateTable \<Rightarrow> CreateTable" where
  "HoistConstraints n =
    (let (defs, appended) = hoistLoop (ct_Defs n) in n\<lparr>ct_Defs := defs @ appended\<rparr>)"

text \<open>A column without inline checks and without an inline reference.\<close>

definition hoisted :: "TableDef \<Rightarrow> bool" where
  "hoisted d = (case d of
                  ColumnDef col \<Rightarrow> ctd_CheckExprs col = [] \<and> ref_Table (ctd_References col) = None
                | _ \<Rightarrow> True)"

text \<open>\<open>CREATE TABLE foo (a INT CHECK (a > 0) REFERENCES bar (x), b INT)\<close>.\<close>

definition fooDefs :: "TableDef list" where
  "fooDefs =
    [ColumnDef \<lparr>ctd_Name = ''a'', ctd_Type = ''INT'', ctd_PrimaryKey = False,
                ctd_CheckExprs = [\<lparr>ce_Expr = OtherExpr ''>'' [VarName ''a'', OtherExpr ''0'' []],
                                   ce_ConstraintName = []\<rparr>],
                ctd_References = \<lparr>ref_Table = Some ''bar'', ref_Col = ''x'',
                                   ref_ConstraintName = [],
                                   ref_Actions = \<lparr>ra_Delete = 0, ra_Update = 0\<rparr>\<rparr>\<rparr>,
     ColumnDef \<lparr>ctd_Name = ''b'', ctd_Type = ''INT'', ctd_PrimaryKey = False,
                ctd_CheckExprs = [],
                ctd_References = \<lparr>ref_Table = None, ref_Col = [], ref_ConstraintName = [],
                                   ref_Actions = \<lparr>ra_Delete = 0, ra_Update = 0\<rparr>\<rparr>\<rparr>]"

section \<open>The constraint pass of MakeTableDesc\<close>




section \<open>CREATE INDEX\<close>

text \<open>
  The fields of \<open>tree.CreateIndex\<close>; \<open>'pb\<close> is the type of a \<open>PARTITION BY\<close>
  clause. \<open>createIndexNode\<close> holds the statement and the pointer to the descriptor of
  the table.
\<close>

record 'pb CreateIndex =
  ci_Name :: string
  ci_Table :: string
  ci_Unique :: bool
  ci_IfNotExists :: bool
  ci_Columns :: "(string \<times> Direction) list"
  ci_Storing :: "string list"
  ci_Interleave :: "InterleaveDef option"
  ci_PartitionBy :: "'pb option"

record 'pb createIndexNode =
  cin_n :: "'pb CreateIndex"
  cin_tableDesc :: TableDescriptor

text \<open>What \<open>Start\<close> reads of \<open>runParams\<close>, and the record it hands to the event log.\<close>

record runParams =
  rp_NodeID :: "32 word"
  rp_User :: string
  rp_Database :: string

record eventRecord =
  ev_EventType :: string
  ev_TargetID :: "32 word"
  ev_ReportingID :: "32 word"
  ev_TableName :: string
  ev_IndexName :: string
  ev_Statement :: string
  ev_User :: string
  ev_MutationID :: "32 word"

text \<open>
  Everything \<open>createIndexNode.Start\<close> calls. \<open>'w\<close> is the state outside the node that
  the calls read and write: the transaction with the descriptors and jobs written in it,
  the event log, the schema changer's queue. The methods of the table and index
  descriptors (\<open>FindIndexByName\<close>, \<open>FillColumns\<close>, \<open>AddIndexMutation\<close>,
  \<open>AllocateIDs\<close>, \<open>FindColumnByID\<close>) and the planner's \<open>createSchemaChangeJob\<close>,
  \<open>writeTableDesc\<close>, \<open>notifySchemaChange\<close>, the table lookup and the event logger
  are defined outside this file. \<open>addPartitionedBy\<close> (lines 1329 to 1396) and
  \<open>finalizeInterleave\<close> (lines 1216 to 1255) are taken as they are called: the first
  returns the index with its partitioning filled in, the second the descriptor and the
  outside state as it leaves them.
\<close>

record ('pb, 'w) indexOps =
  io_FindIndexByName :: "TableDescriptor \<Rightarrow> string \<Rightarrow> error + (IndexDescriptor \<times> bool)"
  io_FillColumns :: "IndexDescriptor \<Rightarrow> (string \<times> Direction) list \<Rightarrow> error + IndexDescriptor"
  io_addPartitionedBy ::
    "TableDescriptor \<Rightarrow> IndexDescriptor \<Rightarrow> 'pb \<Rightarrow> nat \<Rightarrow> error + IndexDescriptor"
  io_AddIndexMutation ::
    "TableDescriptor \<Rightarrow> IndexDescriptor \<Rightarrow> MutationDirection \<Rightarrow> error + TableDescriptor"
  io_AllocateIDs :: "TableDescriptor \<Rightarrow> error + TableDescriptor"
  io_NormalizeWithDatabaseName :: "string \<Rightarrow> string \<Rightarrow> error + string"
  io_MustGetTableDesc :: "'w \<Rightarrow> string \<Rightarrow> bool \<Rightarrow> error + TableDescriptor"
  io_FindColumnByID :: "TableDescriptor \<Rightarrow> ColumnID \<Rightarrow> error + ColumnDescriptor"
  io_finalizeInterleave ::
    "TableDescriptor \<Rightarrow> IndexDescriptor \<Rightarrow> 'w \<Rightarrow> error option \<times> TableDescriptor \<times> 'w"
  io_createSchemaChangeJob ::
    "TableDescriptor \<Rightarrow> string \<Rightarrow> 'w \<Rightarrow> (error + MutationID) \<times> TableDescriptor \<times> 'w"
  io_writeTableDesc :: "TableDescriptor \<Rightarrow> 'w \<Rightarrow> error option \<times> 'w"
  io_InsertEventRecord :: "eventRecord \<Rightarrow> 'w \<Rightarrow> error option \<times> 'w"
  io_notifySchemaChange :: "TableDescriptor \<Rightarrow> MutationID \<Rightarrow> 'w \<Rightarrow> 'w"
  io_AsStringSimpleQualified :: "'pb CreateIndex \<Rightarrow> string"
  io_String :: "'pb CreateIndex \<Rightarrow> string"

text \<open>
  Lines 189 to 197 of \<open>Start\<close>: the interleave step on the index of the mutation just
  added. \<open>Mutations[mutationIdx]\<close> panics out of range.
\<close>

definition interleaveStep ::
  "('pb, 'w) indexOps \<Rightarrow> runParams \<Rightarrow> 'pb createIndexNode \<Rightarrow> nat \<Rightarrow> 'w \<Rightarrow>
   error option \<times> 'pb createIndexNode \<times> 'w" where
  "interleaveStep ops params n mutationIdx w =
    (case ci_Interleave (cin_n n) of
       None \<Rightarrow> (None, n, w)
     | Some interleave \<Rightarrow>
        if mutationIdx \<ge> length (td_Mutations (cin_tableDesc n))
          then (Some (Panic ''index out of range''), n, w)
        else
          (case addInterleave (io_NormalizeWithDatabaseName ops) (io_MustGetTableDesc ops w)
                  (io_FindColumnByID ops) (cin_tableDesc n) (MutationRef mutationIdx)
                  interleave (rp_Database params) of
             Inl err \<Rightarrow> (Some err, n, w)
           | Inr desc1 \<Rightarrow>
              (case io_finalizeInterleave ops desc1 (getIndex desc1 (MutationRef mutationIdx)) w of
                 (Some err, desc2, w') \<Rightarrow> (Some err, n\<lparr>cin_tableDesc := desc2\<rparr>, w')
               | (None, desc2, w') \<Rightarrow> (None, n\<lparr>cin_tableDesc := desc2\<rparr>, w'))))"

text \<open>
  Lines 199 to 229 of \<open>Start\<close>: the schema change job, the write of the descriptor,
  the event record and the notification.
\<close>

definition publishStep ::
  "('pb, 'w) indexOps \<Rightarrow> runParams \<Rightarrow> 'pb createIndexNode \<Rightarrow> 'w \<Rightarrow>
   error option \<times> 'pb createIndexNode \<times> 'w" where
  "publishStep ops params n w =
    (case io_createSchemaChangeJob ops (cin_tableDesc n)
            (io_AsStringSimpleQualified ops (cin_n n)) w of
       (Inl err, desc1, w1) \<Rightarrow> (Some err, n\<lparr>cin_tableDesc := desc1\<rparr>, w1)
     | (Inr mutationID, desc1, w1) \<Rightarrow>
        (case io_writeTableDesc ops desc1 w1 of
           (Some err, w2) \<Rightarrow> (Some err, n\<lparr>cin_tableDesc := desc1\<rparr>, w2)
         | (None, w2) \<Rightarrow>
            (case io_InsertEventRecord ops
                    \<lparr>ev_EventType = ''EventLogCreateIndex'',
                     ev_TargetID = td_ID desc1,
                     ev_ReportingID = rp_NodeID params,
                     ev_TableName = td_Name desc1,
                     ev_IndexName = ci_Name (cin_n n),
                     ev_Statement = io_String ops (cin_n n),
                     ev_User = rp_User params,
                     ev_MutationID = mutationID\<rparr> w2 of
               (Some err, w3) \<Rightarrow> (Some err, n\<lparr>cin_tableDesc := desc1\<rparr>, w3)
             | (None, w3) \<Rightarrow>
                 (None, n\<lparr>cin_tableDesc := desc1\<rparr>,
                  io_notifySchemaChange ops desc1 mutationID w3))))"

text \<open>
  Lines 164 to 229 of \<open>Start\<close>: what follows the test for an existing index.
\<close>

definition addIndex ::
  "('pb, 'w) indexOps \<Rightarrow> runParams \<Rightarrow> 'pb createIndexNode \<Rightarrow> 'w \<Rightarrow>
   error option \<times> 'pb createIndexNode \<times> 'w" where
  "addIndex ops params n w =
    (let indexDesc = zeroIndex\<lparr>idx_Name := ci_Name (cin_n n),
                               idx_Unique := ci_Unique (cin_n n),
                               idx_StoreColumnNames := ci_Storing (cin_n n)\<rparr>
     in case io_FillColumns ops indexDesc (ci_Columns (cin_n n)) of
          Inl err \<Rightarrow> (Some err, n, w)
        | Inr indexDesc1 \<Rightarrow>
           (case (case ci_PartitionBy (cin_n n) of
                    None \<Rightarrow> Inr indexDesc1
                  | Some partBy \<Rightarrow>
                      io_addPartitionedBy ops (cin_tableDesc n) indexDesc1 partBy 0) of
              Inl err \<Rightarrow> (Some err, n, w)
            | Inr indexDesc2 \<Rightarrow>
               let mutationIdx = length (td_Mutations (cin_tableDesc n)) in
               (case io_AddIndexMutation ops (cin_tableDesc n) indexDesc2 MutationADD of
                  Inl err \<Rightarrow> (Some err, n, w)
                | Inr desc1 \<Rightarrow>
                   (case io_AllocateIDs ops desc1 of
                      Inl err \<Rightarrow> (Some err, n\<lparr>cin_tableDesc := desc1\<rparr>, w)
                    | Inr desc2 \<Rightarrow>
                       (case interleaveStep ops params (n\<lparr>cin_tableDesc := desc2\<rparr>)
                               mutationIdx w of
                          (Some err, n1, w1) \<Rightarrow> (Some err, n1, w1)
                        | (None, n1, w1) \<Rightarrow> publishStep ops params n1 w1)))))"

text \<open>
  \<open>createIndexNode.Start\<close>, lines 153 to 230. The result is the error, if any, the
  node (with the table descriptor it points to) and the outside state.
\<close>

definition createIndexNode_Start ::
  "('pb, 'w) indexOps \<Rightarrow> runParams \<Rightarrow> 'pb createIndexNode \<Rightarrow> 'w \<Rightarrow>
   error option \<times> 'pb createIndexNode \<times> 'w" where
  "createIndexNode_Start ops params n w =
    (case io_FindIndexByName ops (cin_tableDesc n) (ci_Name (cin_n n)) of
       Inr (_, dropped) \<Rightarrow>
         if dropped then (Some (IndexBeingDropped (ci_Name (cin_n n))), n, w)
         else if ci_IfNotExists (cin_n n) then (None, n, w)
         else addIndex ops params n w
     | Inl _ \<Rightarrow> addIndex ops params n w)"

text \<open>
  An outside state for the examples that records what was done to it, with stand-ins
  for the calls: an index is found by name among \<open>Indexes\<close>, then among the mutations;
  the job gets the mutation id 1.
\<close>

record trace =
  tr_jobs :: "(ID \<times> string) list"
  tr_written :: "TableDescriptor list"
  tr_events :: "eventRecord list"
  tr_notified :: "(ID \<times> MutationID) list"

definition emptyTrace :: trace where
  "emptyTrace = \<lparr>tr_jobs = [], tr_written = [], tr_events = [], tr_notified = []\<rparr>"

definition findIndexByName :: "TableDescriptor \<Rightarrow> string \<Rightarrow> error + (IndexDescriptor \<times> bool)" where
  "findIndexByName t name =
    (case find (\<lambda>i. idx_Name i = name) (td_Indexes t) of
       Some i \<Rightarrow> Inr (i, False)
     | None \<Rightarrow>
        (case find (\<lambda>m. idx_Name (mut_Index m) = name) (td_Mutations t) of
           Some m \<Rightarrow> Inr (mut_Index m, mut_Direction m = MutationDROP)
         | None \<Rightarrow> Inl (Callee ''index does not exist'')))"

definition traceOps :: "(unit, trace) indexOps" where
  "traceOps =
    \<lparr>io_FindIndexByName = findIndexByName,
     io_FillColumns = (\<lambda>i cols. Inr (i\<lparr>idx_ColumnNames := map fst cols,
                                         idx_ColumnDirections := map snd cols\<rparr>)),
     io_addPartitionedBy = (\<lambda>t i p off. Inr i),
     io_AddIndexMutation = (\<lambda>t i d. Inr (t\<lparr>td_Mutations := td_Mutations t @
                              [\<lparr>mut_Index = i, mut_Direction = d, mut_MutationID = 0\<rparr>]\<rparr>)),
     io_AllocateIDs = Inr,
     io_NormalizeWithDatabaseName = sameName,
     io_MustGetTableDesc = (\<lambda>w. catalog []),
     io_FindColumnByID = findColumn,
     io_finalizeInterleave = (\<lambda>t i w. (None, t, w)),
     io_createSchemaChangeJob =
       (\<lambda>t stmt w. (Inr 1, t, w\<lparr>tr_jobs := tr_jobs w @ [(td_ID t, stmt)]\<rparr>)),
     io_writeTableDesc = (\<lambda>t w. (None, w\<lparr>tr_written := tr_written w @ [t]\<rparr>)),
     io_InsertEventRecord = (\<lambda>e w. (None, w\<lparr>tr_events := tr_events w @ [e]\<rparr>)),
     io_notifySchemaChange = (\<lambda>t m w. w\<lparr>tr_notified := tr_notified w @ [(td_ID t, m)]\<rparr>),
     io_AsStringSimpleQualified = (\<lambda>n. ''CREATE INDEX '' @ ci_Name n),
     io_String = (\<lambda>n. ''CREATE INDEX '' @ ci_Name n)\<rparr>"

definition someParams :: runParams where
  "someParams = \<lparr>rp_NodeID = 1, rp_User = ''root'', rp_Database = ''db''\<rparr>"

text \<open>\<open>CREATE INDEX [IF NOT EXISTS] t_a_b_idx ON t (b)\<close> on the table \<open>t\<close> above.\<close>

definition createIdx :: "bool \<Rightarrow> unit createIndexNode" where
  "createIdx ifNotExists =
    \<lparr>cin_n = \<lparr>ci_Name = ''t_a_b_idx'', ci_Table = ''t'', ci_Unique = False,
              ci_IfNotExists = ifNotExists, ci_Columns = [(''b'', ASC)], ci_Storing = [],
              ci_Interleave = None, ci_PartitionBy = None\<rparr>,
     cin_tableDesc = tblT\<rparr>"

section \<open>Properties\<close>

lemma isOk_simps [simp]: "isOk (Inl e) = False" "isOk (Inr v) = True"
  by (simp_all add: isOk_def)

text \<open>
  C8. \<open>CreateDatabase\<close> returns a plan node exactly when the name is not empty, the
  template (if given) is \<open>template0\<close> up to case, the encoding (if given) is one of UTF8,
  UTF-8, UNICODE up to case, the collation and the ctype (if given) are exactly \<open>C\<close> or
  \<open>C.UTF-8\<close>, and the superuser check passes; in every other case it returns an error
  and no node. The node returned is the one holding the statement. The encoding
  \<open>LATIN1\<close> is rejected with the message "unsupported encoding: LATIN1", and
  \<open>UTF-8\<close> is accepted.
\<close>

theorem CreateDatabase_accepts_iff:
  "(isOk (CreateDatabase rsu n) =
      (cd_Name n \<noteq> [] \<and>
       (cd_Template n = [] \<or> EqualFold (cd_Template n) ''template0'') \<and>
       (cd_Encoding n = [] \<or> utf8Alias (cd_Encoding n)) \<and>
       (cd_Collate n = [] \<or> cLocale (cd_Collate n)) \<and>
       (cd_CType n = [] \<or> cLocale (cd_CType n)) \<and>
       rsu ''CREATE DATABASE'' = None)) \<and>
   (isOk (CreateDatabase rsu n) = (CreateDatabase rsu n = Inr (CreateDatabaseNode n))) \<and>
   (\<exists>e. CreateDatabase rsu
          \<lparr>cd_IfNotExists = False, cd_Name = ''db1'', cd_Template = [],
           cd_Encoding = ''LATIN1'', cd_Collate = [], cd_CType = []\<rparr> = Inl e \<and>
        errorMessage e = ''unsupported encoding: LATIN1'') \<and>
   isOk (CreateDatabase (\<lambda>_. None)
          \<lparr>cd_IfNotExists = False, cd_Name = ''db1'', cd_Template = [],
           cd_Encoding = ''UTF-8'', cd_Collate = [], cd_CType = []\<rparr>)"
proof (intro conjI)
  show "isOk (CreateDatabase rsu n) =
      (cd_Name n \<noteq> [] \<and>
       (cd_Template n = [] \<or> EqualFold (cd_Template n) ''template0'') \<and>
       (cd_Encoding n = [] \<or> utf8Alias (cd_Encoding n)) \<and>
       (cd_Collate n = [] \<or> cLocale (cd_Collate n)) \<and>
       (cd_CType n = [] \<or> cLocale (cd_CType n)) \<and>
       rsu ''CREATE DATABASE'' = None)"
    by (auto simp: CreateDatabase_def utf8Alias_def cLocale_def split: option.splits)
  show "isOk (CreateDatabase rsu n) = (CreateDatabase rsu n = Inr (CreateDatabaseNode n))"
    by (auto simp: CreateDatabase_def split: option.splits)
  show "\<exists>e. CreateDatabase rsu
          \<lparr>cd_IfNotExists = False, cd_Name = ''db1'', cd_Template = [],
           cd_Encoding = ''LATIN1'', cd_Collate = [], cd_CType = []\<rparr> = Inl e \<and>
        errorMessage e = ''unsupported encoding: LATIN1''"
    by (simp add: CreateDatabase_def EqualFold_def toLower_def)
  show "isOk (CreateDatabase (\<lambda>_. None)
          \<lparr>cd_IfNotExists = False, cd_Name = ''db1'', cd_Template = [],
           cd_Encoding = ''UTF-8'', cd_Collate = [], cd_CType = []\<rparr>)"
    by (simp add: CreateDatabase_def EqualFold_def toLower_def)
qed

theorem CreateDatabase_accepts_iff_witness:
  "CreateDatabase (\<lambda>_. None)
     \<lparr>cd_IfNotExists = False, cd_Name = ''db1'', cd_Template = ''TEMPLATE0'',
      cd_Encoding = ''unicode'', cd_Collate = ''C'', cd_CType = ''C.UTF-8''\<rparr>
   = Inr (CreateDatabaseNode
     \<lparr>cd_IfNotExists = False, cd_Name = ''db1'', cd_Template = ''TEMPLATE0'',
      cd_Encoding = ''unicode'', cd_Collate = ''C'', cd_CType = ''C.UTF-8''\<rparr>)"
proof -
  let ?n = "\<lparr>cd_IfNotExists = False, cd_Name = ''db1'', cd_Template = ''TEMPLATE0'',
      cd_Encoding = ''unicode'', cd_Collate = ''C'', cd_CType = ''C.UTF-8''\<rparr>"
  note t = CreateDatabase_accepts_iff [of "\<lambda>_. None" ?n]
  have "isOk (CreateDatabase (\<lambda>_. None) ?n)"
    unfolding t [THEN conjunct1]
    by (simp add: utf8Alias_def cLocale_def EqualFold_def toLower_def)
  then show ?thesis
    unfolding t [THEN conjunct2, THEN conjunct1] .
qed

subsection \<open>Searching a list of indexes\<close>

lemma firstFrom_None: "(firstFrom P i xs = None) = (\<forall>x\<in>set xs. \<not> P x)"
  by (induction xs arbitrary: i) auto

lemma firstFrom_Some_offset:
  "(firstFrom P k xs = Some i) =
   (\<exists>m. i = k + m \<and> m < length xs \<and> P (xs ! m) \<and> (\<forall>j<m. \<not> P (xs ! j)))"
proof (induction xs arbitrary: k)
  case Nil
  then show ?case by simp
next
  case (Cons x xs)
  show ?case
  proof (cases "P x")
    case True
    have "(\<exists>m. i = k + m \<and> m < length (x # xs) \<and> P ((x # xs) ! m) \<and>
             (\<forall>j<m. \<not> P ((x # xs) ! j))) = (i = k)"
    proof
      assume "\<exists>m. i = k + m \<and> m < length (x # xs) \<and> P ((x # xs) ! m) \<and>
             (\<forall>j<m. \<not> P ((x # xs) ! j))"
      then obtain m where m: "i = k + m" "\<forall>j<m. \<not> P ((x # xs) ! j)" by blast
      have "m = 0"
      proof (rule ccontr)
        assume "m \<noteq> 0"
        then have "0 < m" by simp
        with m(2) have "\<not> P ((x # xs) ! 0)" by blast
        with True show False by simp
      qed
      with m(1) show "i = k" by simp
    next
      assume "i = k"
      with True show "\<exists>m. i = k + m \<and> m < length (x # xs) \<and> P ((x # xs) ! m) \<and>
             (\<forall>j<m. \<not> P ((x # xs) ! j))"
        by (intro exI [of _ 0]) simp
    qed
    with True show ?thesis by auto
  next
    case False
    have "(\<exists>m. i = k + m \<and> m < length (x # xs) \<and> P ((x # xs) ! m) \<and>
             (\<forall>j<m. \<not> P ((x # xs) ! j))) =
          (\<exists>m. i = Suc k + m \<and> m < length xs \<and> P (xs ! m) \<and> (\<forall>j<m. \<not> P (xs ! j)))"
    proof
      assume "\<exists>m. i = k + m \<and> m < length (x # xs) \<and> P ((x # xs) ! m) \<and>
             (\<forall>j<m. \<not> P ((x # xs) ! j))"
      then obtain m where m: "i = k + m" "m < length (x # xs)" "P ((x # xs) ! m)"
        "\<forall>j<m. \<not> P ((x # xs) ! j)" by blast
      from m(3) False obtain m' where m': "m = Suc m'" by (cases m) auto
      have "\<forall>j<m'. \<not> P (xs ! j)"
      proof (intro allI impI)
        fix j assume "j < m'"
        then have "Suc j < m" using m' by simp
        with m(4) have "\<not> P ((x # xs) ! Suc j)" by blast
        then show "\<not> P (xs ! j)" by simp
      qed
      with m m' show "\<exists>m. i = Suc k + m \<and> m < length xs \<and> P (xs ! m) \<and> (\<forall>j<m. \<not> P (xs ! j))"
        by (intro exI [of _ m']) simp
    next
      assume "\<exists>m. i = Suc k + m \<and> m < length xs \<and> P (xs ! m) \<and> (\<forall>j<m. \<not> P (xs ! j))"
      then obtain m where m: "i = Suc k + m" "m < length xs" "P (xs ! m)"
        "\<forall>j<m. \<not> P (xs ! j)" by blast
      have "\<forall>j<Suc m. \<not> P ((x # xs) ! j)"
      proof (intro allI impI)
        fix j assume j: "j < Suc m"
        show "\<not> P ((x # xs) ! j)"
        proof (cases j)
          case 0
          with False show ?thesis by simp
        next
          case (Suc j')
          with j m(4) show ?thesis by simp
        qed
      qed
      with m show "\<exists>m. i = k + m \<and> m < length (x # xs) \<and> P ((x # xs) ! m) \<and>
             (\<forall>j<m. \<not> P ((x # xs) ! j))"
        by (intro exI [of _ "Suc m"]) simp
    qed
    with False Cons.IH [of "Suc k"] show ?thesis by simp
  qed
qed

lemma firstFrom_Some:
  "(firstFrom P 0 xs = Some i) =
   (i < length xs \<and> P (xs ! i) \<and> (\<forall>j<i. \<not> P (xs ! j)))"
  by (simp add: firstFrom_Some_offset)

lemma matchesLoop_iff:
  "length cols \<le> length ids \<Longrightarrow> matchesLoop cols ids = (take (length cols) ids = map col_ID cols)"
  by (induction cols ids rule: matchesLoop.induct) auto

lemma matchesIndex_exact:
  "matchesIndex cols idx matchExact = (idx_ColumnIDs idx = map col_ID cols)"
  by (auto simp: matchesIndex_def matchExact_def matchesLoop_iff)

lemma matchesIndex_prefix:
  "matchesIndex cols idx matchPrefix =
     (length cols \<le> length (idx_ColumnIDs idx) \<and>
      take (length cols) (idx_ColumnIDs idx) = map col_ID cols)"
  by (auto simp: matchesIndex_def matchPrefix_def matchesLoop_iff)

lemma findUniqueFrom_firstFrom:
  "findUniqueFrom cols i xs =
     firstFrom (\<lambda>idx. idx_Unique idx \<and> idx_ColumnIDs idx = map col_ID cols) i xs"
  by (induction xs arbitrary: i) (simp_all add: matchesIndex_exact)

lemma findPrefixFrom_firstFrom:
  "findPrefixFrom cols i xs =
     firstFrom (\<lambda>idx. length cols \<le> length (idx_ColumnIDs idx) \<and>
      take (length cols) (idx_ColumnIDs idx) = map col_ID cols) i xs"
  by (induction xs arbitrary: i) (simp_all add: matchesIndex_prefix)

lemma matchesIndex_prefixMatch: "matchesIndex cols idx matchPrefix = prefixMatch cols idx"
  by (simp add: matchesIndex_prefix prefixMatch_def)

lemma findPrefixFrom_first:
  "findPrefixFrom cols 0 xs = firstFrom (prefixMatch cols) 0 xs"
  by (simp add: findPrefixFrom_firstFrom prefixMatch_def [abs_def])

subsection \<open>The target index of a foreign key\<close>

text \<open>
  C1. The target index that \<open>resolveFK\<close> chooses is the primary index of the target
  table exactly when the column ids of the primary index are the referenced columns; it
  is the secondary index at position \<open>i\<close> exactly when the primary index does not match
  exactly and \<open>i\<close> is the first position in \<open>Indexes\<close> of an index that is unique and
  matches exactly; and \<open>resolveFK\<close> fails, with the "no unique constraint matching given
  keys" error, exactly when neither the primary index nor any unique secondary index
  matches exactly. An index of which the referenced columns are only a proper prefix
  matches nothing here, so it is never chosen. (The primary index is the table's primary
  key; the code does not read its \<open>Unique\<close> flag.)
\<close>

theorem findTargetIdx_unique_exact:
  "((findTargetIdx tn targetCols target = Inr PrimaryIndexRef) =
      exactMatch targetCols (td_PrimaryIndex target)) \<and>
   ((findTargetIdx tn targetCols target = Inr (IndexesRef i)) =
      (\<not> exactMatch targetCols (td_PrimaryIndex target) \<and>
       i < length (td_Indexes target) \<and>
       idx_Unique (td_Indexes target ! i) \<and> exactMatch targetCols (td_Indexes target ! i) \<and>
       (\<forall>j<i. \<not> (idx_Unique (td_Indexes target ! j) \<and>
                  exactMatch targetCols (td_Indexes target ! j))))) \<and>
   ((findTargetIdx tn targetCols target = Inl e) =
      (e = NoUniqueConstraint tn \<and>
       \<not> exactMatch targetCols (td_PrimaryIndex target) \<and>
       (\<forall>idx\<in>set (td_Indexes target). \<not> (idx_Unique idx \<and> exactMatch targetCols idx)))) \<and>
   findTargetIdx tn targetCols target \<noteq> Inr (MutationRef k) \<and>
   errorMessage (NoUniqueConstraint tn) =
     ''there is no unique constraint matching given keys for referenced table '' @ tn"
proof -
  let ?P = "\<lambda>idx. idx_Unique idx \<and> idx_ColumnIDs idx = map col_ID targetCols"
  have f: "findUniqueFrom targetCols 0 (td_Indexes target) = firstFrom ?P 0 (td_Indexes target)"
    by (rule findUniqueFrom_firstFrom)
  show ?thesis
  proof (cases "firstFrom ?P 0 (td_Indexes target)")
    case None
    then have "\<forall>idx\<in>set (td_Indexes target). \<not> ?P idx"
      by (simp add: firstFrom_None)
    moreover have "\<And>i. firstFrom ?P 0 (td_Indexes target) \<noteq> Some i"
      using None by simp
    ultimately show ?thesis
      using None
      by (auto simp: findTargetIdx_def f exactMatch_def matchesIndex_exact firstFrom_Some)
  next
    case (Some m)
    then have m: "m < length (td_Indexes target)" "?P (td_Indexes target ! m)"
      "\<forall>j<m. \<not> ?P (td_Indexes target ! j)"
      by (simp_all add: firstFrom_Some)
    have ex: "\<exists>idx\<in>set (td_Indexes target). ?P idx"
      using m(1,2) nth_mem by blast
    have uniq: "(i < length (td_Indexes target) \<and> ?P (td_Indexes target ! i) \<and>
        (\<forall>j<i. \<not> ?P (td_Indexes target ! j))) = (i = m)"
      using Some firstFrom_Some [of ?P "td_Indexes target" i] by auto
    show ?thesis
      using Some ex uniq
      by (auto simp: findTargetIdx_def f exactMatch_def matchesIndex_exact)
  qed
qed

theorem findTargetIdx_unique_exact_witness:
  "findTargetIdx ''p'' [mkCol ''x'' 2, mkCol ''y'' 3]
     (mkTable ''p'' 50 [mkCol ''k'' 1, mkCol ''x'' 2, mkCol ''y'' 3, mkCol ''z'' 4]
        (mkIndex ''primary'' 1 True [''k''] [1])
        [mkIndex ''xy'' 2 False [''x'', ''y''] [2, 3],
         mkIndex ''xyz'' 3 True [''x'', ''y'', ''z''] [2, 3, 4],
         mkIndex ''xy_key'' 4 True [''x'', ''y''] [2, 3]])
   = Inr (IndexesRef 2)"
  unfolding findTargetIdx_unique_exact [THEN conjunct2, THEN conjunct1]
  by (simp add: exactMatch_def mkTable_def mkIndex_def mkCol_def zeroIndex_def
        less_Suc_eq numeral_2_eq_2)

subsection \<open>The source index of a foreign key\<close>

text \<open>
  C2, as amended. If the source columns are a prefix of the primary index, \<open>resolveFK\<close>
  uses the primary index when it carries no foreign key, and fails with "columns cannot
  be used by multiple foreign key constraints" when it carries one: the secondary
  indexes are scanned only when the primary index does not prefix-match. The scan stops
  at the first secondary index that prefix-matches: it is used when it carries no foreign
  key, else the same error is returned. When no index matches, \<open>Unvalidated\<close> mode fails
  with "foreign key requires an existing index on columns ..."; \<open>Validated\<close> mode calls
  \<open>AddIndex\<close> with a non-unique index named \<open>{table}_auto_index_{constraint}\<close>, over
  the names of the source columns, all ascending, carrying the reference, then
  \<open>AllocateIDs\<close>, and uses the last index of the table (provided it prefix-matches the
  source columns).
\<close>

theorem findSourceIdx_cases:
  "(prefixMatch srcCols (td_PrimaryIndex tbl) \<longrightarrow>
      findSourceIdx IsSet AddIndex AllocateIDs tbl srcCols cn ref mode =
        (if IsSet (idx_ForeignKey (td_PrimaryIndex tbl)) then Inl MultipleFKColumns
         else Inr (tbl\<lparr>td_PrimaryIndex := (td_PrimaryIndex tbl)\<lparr>idx_ForeignKey := ref\<rparr>\<rparr>,
                   idx_ID (td_PrimaryIndex tbl)))) \<and>
   (\<not> prefixMatch srcCols (td_PrimaryIndex tbl) \<and> i < length (td_Indexes tbl) \<and>
    prefixMatch srcCols (td_Indexes tbl ! i) \<and>
    (\<forall>j<i. \<not> prefixMatch srcCols (td_Indexes tbl ! j)) \<longrightarrow>
      findSourceIdx IsSet AddIndex AllocateIDs tbl srcCols cn ref mode =
        (if IsSet (idx_ForeignKey (td_Indexes tbl ! i)) then Inl MultipleFKColumns
         else Inr (tbl\<lparr>td_Indexes :=
                         (td_Indexes tbl)[i := (td_Indexes tbl ! i)\<lparr>idx_ForeignKey := ref\<rparr>]\<rparr>,
                   idx_ID (td_Indexes tbl ! i)))) \<and>
   (\<not> prefixMatch srcCols (td_PrimaryIndex tbl) \<and>
    (\<forall>idx\<in>set (td_Indexes tbl). \<not> prefixMatch srcCols idx) \<and> mode = Unvalidated \<longrightarrow>
      findSourceIdx IsSet AddIndex AllocateIDs tbl srcCols cn ref mode =
        Inl (RequiresExistingIndex (colNames srcCols)) \<and>
      errorMessage (RequiresExistingIndex (colNames srcCols)) =
        ''foreign key requires an existing index on columns '' @ colNames srcCols) \<and>
   (\<not> prefixMatch srcCols (td_PrimaryIndex tbl) \<and>
    (\<forall>idx\<in>set (td_Indexes tbl). \<not> prefixMatch srcCols idx) \<and> mode = Validated \<and>
    AddIndex tbl
      \<lparr>idx_Name = td_Name tbl @ ''_auto_index_'' @ cn, idx_ID = 0, idx_Unique = False,
       idx_ColumnNames = map col_Name srcCols,
       idx_ColumnDirections = replicate (length srcCols) ASC, idx_ColumnIDs = [],
       idx_ForeignKey = ref, idx_ReferencedBy = [], idx_Ancestors = [],
       idx_InterleavedBy = [], idx_StoreColumnNames = []\<rparr> False = Inr tbl1 \<and>
    AllocateIDs tbl1 = Inr tbl2 \<and> td_Indexes tbl2 \<noteq> [] \<and>
    prefixMatch srcCols (last (td_Indexes tbl2)) \<longrightarrow>
      findSourceIdx IsSet AddIndex AllocateIDs tbl srcCols cn ref mode =
        Inr (tbl2, idx_ID (last (td_Indexes tbl2))))"
proof (intro conjI impI)
  assume "prefixMatch srcCols (td_PrimaryIndex tbl)"
  then show "findSourceIdx IsSet AddIndex AllocateIDs tbl srcCols cn ref mode =
        (if IsSet (idx_ForeignKey (td_PrimaryIndex tbl)) then Inl MultipleFKColumns
         else Inr (tbl\<lparr>td_PrimaryIndex := (td_PrimaryIndex tbl)\<lparr>idx_ForeignKey := ref\<rparr>\<rparr>,
                   idx_ID (td_PrimaryIndex tbl)))"
    by (simp add: findSourceIdx_def matchesIndex_prefixMatch)
next
  assume a: "\<not> prefixMatch srcCols (td_PrimaryIndex tbl) \<and> i < length (td_Indexes tbl) \<and>
    prefixMatch srcCols (td_Indexes tbl ! i) \<and>
    (\<forall>j<i. \<not> prefixMatch srcCols (td_Indexes tbl ! j))"
  then have "firstFrom (prefixMatch srcCols) 0 (td_Indexes tbl) = Some i"
    by (simp add: firstFrom_Some)
  with a show "findSourceIdx IsSet AddIndex AllocateIDs tbl srcCols cn ref mode =
        (if IsSet (idx_ForeignKey (td_Indexes tbl ! i)) then Inl MultipleFKColumns
         else Inr (tbl\<lparr>td_Indexes :=
                         (td_Indexes tbl)[i := (td_Indexes tbl ! i)\<lparr>idx_ForeignKey := ref\<rparr>]\<rparr>,
                   idx_ID (td_Indexes tbl ! i)))"
    by (simp add: findSourceIdx_def matchesIndex_prefixMatch findPrefixFrom_first)
next
  assume a: "\<not> prefixMatch srcCols (td_PrimaryIndex tbl) \<and>
    (\<forall>idx\<in>set (td_Indexes tbl). \<not> prefixMatch srcCols idx) \<and> mode = Unvalidated"
  then have "firstFrom (prefixMatch srcCols) 0 (td_Indexes tbl) = None"
    by (simp add: firstFrom_None)
  with a show "findSourceIdx IsSet AddIndex AllocateIDs tbl srcCols cn ref mode =
        Inl (RequiresExistingIndex (colNames srcCols))"
    by (simp add: findSourceIdx_def matchesIndex_prefixMatch findPrefixFrom_first)
next
  show "errorMessage (RequiresExistingIndex (colNames srcCols)) =
        ''foreign key requires an existing index on columns '' @ colNames srcCols"
    by simp
next
  assume a: "\<not> prefixMatch srcCols (td_PrimaryIndex tbl) \<and>
    (\<forall>idx\<in>set (td_Indexes tbl). \<not> prefixMatch srcCols idx) \<and> mode = Validated \<and>
    AddIndex tbl
      \<lparr>idx_Name = td_Name tbl @ ''_auto_index_'' @ cn, idx_ID = 0, idx_Unique = False,
       idx_ColumnNames = map col_Name srcCols,
       idx_ColumnDirections = replicate (length srcCols) ASC, idx_ColumnIDs = [],
       idx_ForeignKey = ref, idx_ReferencedBy = [], idx_Ancestors = [],
       idx_InterleavedBy = [], idx_StoreColumnNames = []\<rparr> False = Inr tbl1 \<and>
    AllocateIDs tbl1 = Inr tbl2 \<and> td_Indexes tbl2 \<noteq> [] \<and>
    prefixMatch srcCols (last (td_Indexes tbl2))"
  then have n: "firstFrom (prefixMatch srcCols) 0 (td_Indexes tbl) = None"
    by (simp add: firstFrom_None)
  have ai: "autoIndex tbl srcCols cn ref =
      \<lparr>idx_Name = td_Name tbl @ ''_auto_index_'' @ cn, idx_ID = 0, idx_Unique = False,
       idx_ColumnNames = map col_Name srcCols,
       idx_ColumnDirections = replicate (length srcCols) ASC, idx_ColumnIDs = [],
       idx_ForeignKey = ref, idx_ReferencedBy = [], idx_Ancestors = [],
       idx_InterleavedBy = [], idx_StoreColumnNames = []\<rparr>"
    by (simp add: autoIndex_def zeroIndex_def map_replicate_const)
  from a n show "findSourceIdx IsSet AddIndex AllocateIDs tbl srcCols cn ref mode =
        Inr (tbl2, idx_ID (last (td_Indexes tbl2)))"
    by (simp add: findSourceIdx_def matchesIndex_prefixMatch findPrefixFrom_first
          addIndexForFK_def ai)
qed

theorem findSourceIdx_cases_witness:
  "findSourceIdx fkIsSet appendIndex (allocateAs 3 [2])
     (mkTable ''t'' 60 [mkCol ''a'' 1, mkCol ''b'' 2] (mkIndex ''primary'' 1 True [''a''] [1]) [])
     [mkCol ''b'' 2] ''fk_b_ref_p'' (mkFK 50 1 ''fk_b_ref_p'' 1) Validated
   = Inr (mkTable ''t'' 60 [mkCol ''a'' 1, mkCol ''b'' 2] (mkIndex ''primary'' 1 True [''a''] [1])
            [\<lparr>idx_Name = ''t_auto_index_fk_b_ref_p'', idx_ID = 3, idx_Unique = False,
              idx_ColumnNames = [''b''], idx_ColumnDirections = [ASC], idx_ColumnIDs = [2],
              idx_ForeignKey = mkFK 50 1 ''fk_b_ref_p'' 1, idx_ReferencedBy = [],
              idx_Ancestors = [], idx_InterleavedBy = [], idx_StoreColumnNames = []\<rparr>], 3)"
proof -
  let ?tbl = "mkTable ''t'' 60 [mkCol ''a'' 1, mkCol ''b'' 2] (mkIndex ''primary'' 1 True [''a''] [1]) []"
  let ?added = "\<lparr>idx_Name = ''t_auto_index_fk_b_ref_p'', idx_ID = 0, idx_Unique = False,
              idx_ColumnNames = [''b''], idx_ColumnDirections = [ASC], idx_ColumnIDs = [],
              idx_ForeignKey = mkFK 50 1 ''fk_b_ref_p'' 1, idx_ReferencedBy = [],
              idx_Ancestors = [], idx_InterleavedBy = [], idx_StoreColumnNames = []\<rparr>"
  let ?tbl1 = "?tbl\<lparr>td_Indexes := [?added]\<rparr>"
  let ?tbl2 = "?tbl\<lparr>td_Indexes := [?added\<lparr>idx_ID := 3, idx_ColumnIDs := [2]\<rparr>]\<rparr>"
  note t = findSourceIdx_cases
    [where srcCols = "[mkCol ''b'' 2]" and tbl = ?tbl and mode = Validated
       and AddIndex = appendIndex and AllocateIDs = "allocateAs 3 [2]"
       and cn = "''fk_b_ref_p''" and ref = "mkFK 50 1 ''fk_b_ref_p'' 1"
       and IsSet = fkIsSet and ?tbl1.0 = ?tbl1 and ?tbl2.0 = ?tbl2,
     THEN conjunct2, THEN conjunct2, THEN conjunct2, rule_format]
  have "findSourceIdx fkIsSet appendIndex (allocateAs 3 [2]) ?tbl
          [mkCol ''b'' 2] ''fk_b_ref_p'' (mkFK 50 1 ''fk_b_ref_p'' 1) Validated
        = Inr (?tbl2, idx_ID (last (td_Indexes ?tbl2)))"
    by (rule t) (simp add: prefixMatch_def appendIndex_def allocateAs_def mkTable_def
          mkIndex_def mkCol_def zeroIndex_def)
  then show ?thesis
    by (simp add: mkTable_def)
qed

text \<open>
  C2 as first stated fails on the table \<open>t\<close> whose primary index \<open>(a)\<close> already
  carries a foreign key and which has a second index \<open>(a, b)\<close> without one. For the
  source column \<open>a\<close> the primary index is not (a prefix match free of a foreign key),
  the secondary index prefix-matches and is free, and yet \<open>resolveFK\<close> uses no index:
  it fails.
\<close>

theorem findSourceIdx_counterexample:
  "\<not> (matchesIndex [mkCol ''a'' 1] (td_PrimaryIndex tblT1) matchPrefix \<and>
       \<not> fkIsSet (idx_ForeignKey (td_PrimaryIndex tblT1))) \<and>
   matchesIndex [mkCol ''a'' 1] (td_Indexes tblT1 ! 0) matchPrefix \<and>
   \<not> fkIsSet (idx_ForeignKey (td_Indexes tblT1 ! 0)) \<and>
   findSourceIdx fkIsSet appendIndex Inr tblT1
     [mkCol ''a'' 1] ''fk2'' (mkFK 51 1 ''fk2'' 1) Validated
   = Inl MultipleFKColumns"
  by (simp add: findSourceIdx_def matchesIndex_def matchPrefix_def fkIsSet_def tblT_def
        tblT1_def mkTable_def mkIndex_def mkCol_def mkFK_def zeroIndex_def zeroFK_def)

subsection \<open>Columns used by more than one foreign key\<close>

lemmas fixtures = tblT_def tblT1_def tblT2_def mkTable_def mkIndex_def mkCol_def mkFK_def
  zeroIndex_def zeroFK_def

text \<open>
  What the check does establish: when it passes, no column is counted twice among the
  foreign keys of the secondary indexes.
\<close>

lemma fkColsLoop_ok:
  "fkColsLoop seen idx i n = Inr seen' \<Longrightarrow>
     seen' = seen \<union> set (take n (drop i (idx_ColumnIDs idx))) \<and>
     distinct (take n (drop i (idx_ColumnIDs idx))) \<and>
     seen \<inter> set (take n (drop i (idx_ColumnIDs idx))) = {}"
proof (induction n arbitrary: seen i)
  case 0
  then show ?case by simp
next
  case (Suc n)
  let ?ids = "idx_ColumnIDs idx"
  from Suc.prems have i: "i < length ?ids" and new: "?ids ! i \<notin> seen"
    and rest: "fkColsLoop (insert (?ids ! i) seen) idx (Suc i) n = Inr seen'"
    by (auto split: if_splits)
  from Suc.IH [OF rest] have ih:
    "seen' = insert (?ids ! i) seen \<union> set (take n (drop (Suc i) ?ids))"
    "distinct (take n (drop (Suc i) ?ids))"
    "insert (?ids ! i) seen \<inter> set (take n (drop (Suc i) ?ids)) = {}"
    by simp_all
  from i have d: "drop i ?ids = ?ids ! i # drop (Suc i) ?ids"
    by (simp add: Cons_nth_drop_Suc)
  from ih new show ?case
    by (auto simp: d)
qed

lemma secondary_fk_columns_distinct:
  "checkColsInFKs IsSet seen idxs = Inr seen' \<Longrightarrow>
     distinct (concat (map fkColumns (filter (\<lambda>idx. IsSet (idx_ForeignKey idx)) idxs))) \<and>
     seen \<inter> set (concat (map fkColumns (filter (\<lambda>idx. IsSet (idx_ForeignKey idx)) idxs))) = {} \<and>
     seen \<subseteq> seen'"
proof (induction idxs arbitrary: seen)
  case Nil
  then show ?case by simp
next
  case (Cons idx rest)
  show ?case
  proof (cases "IsSet (idx_ForeignKey idx)")
    case False
    with Cons.prems have "checkColsInFKs IsSet seen rest = Inr seen'" by simp
    from Cons.IH [OF this] False show ?thesis by simp
  next
    case True
    with Cons.prems obtain s1 where l: "fkColsLoop seen idx 0 (fkNumCols idx) = Inr s1"
      and r: "checkColsInFKs IsSet s1 rest = Inr seen'"
      by (auto split: sum.splits)
    from fkColsLoop_ok [OF l] have a: "s1 = seen \<union> set (fkColumns idx)"
      "distinct (fkColumns idx)" "seen \<inter> set (fkColumns idx) = {}"
      by (simp_all add: fkColumns_def)
    from Cons.IH [OF r] a True show ?thesis
      by auto
  qed
qed

text \<open>
  C5. The check at the end of \<open>MakeTableDesc\<close> runs over \<open>desc.Indexes\<close> only, so a
  foreign key stored on the primary index is not counted. For
  \<open>CREATE TABLE t (a INT PRIMARY KEY, b INT, INDEX (a, b), FOREIGN KEY (a) REFERENCES p,
  FOREIGN KEY (a, b) REFERENCES q)\<close> the first foreign key goes to the primary index,
  the second to the index \<open>(a, b)\<close>; column \<open>a\<close> (id 1) is among the counted columns of
  both, and the descriptor is returned without an error.
\<close>

theorem multiple_fk_primary_unchecked:
  "findSourceIdx fkIsSet appendIndex Inr tblT [mkCol ''a'' 1] ''fk1'' (mkFK 50 1 ''fk1'' 1) Validated
     = Inr (tblT1, 1) \<and>
   findSourceIdx fkIsSet appendIndex Inr tblT1
     [mkCol ''a'' 1, mkCol ''b'' 2] ''fk2'' (mkFK 51 1 ''fk2'' 2) Validated
     = Inr (tblT2, 2) \<and>
   fkIsSet (idx_ForeignKey (td_PrimaryIndex tblT2)) \<and>
   fkIsSet (idx_ForeignKey (td_Indexes tblT2 ! 0)) \<and>
   1 \<in> set (fkColumns (td_PrimaryIndex tblT2)) \<and>
   1 \<in> set (fkColumns (td_Indexes tblT2 ! 0)) \<and>
   finishTableDesc fkIsSet Inr tblT2 = Inr tblT2"
proof (intro conjI)
  show "findSourceIdx fkIsSet appendIndex Inr tblT [mkCol ''a'' 1] ''fk1''
          (mkFK 50 1 ''fk1'' 1) Validated = Inr (tblT1, 1)"
    by (simp add: findSourceIdx_def matchesIndex_def matchPrefix_def fkIsSet_def fixtures)
  show "findSourceIdx fkIsSet appendIndex Inr tblT1 [mkCol ''a'' 1, mkCol ''b'' 2] ''fk2''
          (mkFK 51 1 ''fk2'' 2) Validated = Inr (tblT2, 2)"
    by (simp add: findSourceIdx_def matchesIndex_def matchPrefix_def fkIsSet_def fixtures)
  show p: "fkIsSet (idx_ForeignKey (td_PrimaryIndex tblT2))"
    by (simp add: fkIsSet_def fixtures)
  show s: "fkIsSet (idx_ForeignKey (td_Indexes tblT2 ! 0))"
    by (simp add: fkIsSet_def fixtures)
  have n1: "fkNumCols (td_PrimaryIndex tblT2) = Suc 0"
    by (simp add: fkNumCols_def fixtures)
  have n2: "fkNumCols (td_Indexes tblT2 ! 0) = Suc (Suc 0)"
    by (simp add: fkNumCols_def fixtures)
  show "1 \<in> set (fkColumns (td_PrimaryIndex tblT2))"
    by (simp add: fkColumns_def n1) (simp add: fixtures)
  show "1 \<in> set (fkColumns (td_Indexes tblT2 ! 0))"
    by (simp add: fkColumns_def n2) (simp add: fixtures)
  have i: "td_Indexes tblT2 = [td_Indexes tblT2 ! 0]"
    by (simp add: fixtures)
  have "checkColsInFKs fkIsSet {} [td_Indexes tblT2 ! 0] = Inr {1, 2}"
    using s by (simp add: n2) (simp add: fixtures insert_commute)
  then show "finishTableDesc fkIsSet Inr tblT2 = Inr tblT2"
    unfolding finishTableDesc_def by (subst i) simp
qed

subsection \<open>Interleaving\<close>

lemma getIndex_putIndex: "validRef t r \<Longrightarrow> getIndex (putIndex t r x) r = x"
  by (cases r) simp_all

lemma getIndex_State: "getIndex (t\<lparr>td_State := s\<rparr>) r = getIndex t r"
  by (cases r) simp_all

lemma td_State_putIndex: "td_State (putIndex t r x) = td_State t"
  by (cases r) simp_all

lemma subtract_ancestors:
  "foldl (\<lambda>a ancestor. a\<lparr>anc_SharedPrefixLen :=
                             anc_SharedPrefixLen a - anc_SharedPrefixLen ancestor\<rparr>) intl as =
   intl\<lparr>anc_SharedPrefixLen :=
          anc_SharedPrefixLen intl - sum_list (map anc_SharedPrefixLen as)\<rparr>"
proof (induction as arbitrary: intl)
  case Nil
  then show ?case by simp
next
  case (Cons a as)
  show ?case by (simp add: Cons.IH diff_diff_eq)
qed

lemma sum_list_word_of_unat:
  "sum_list (map f xs) = (of_nat (sum_list (map (unat \<circ> f) xs)) :: 32 word)"
  by (induction xs) simp_all

lemma interleaveLoop_None:
  assumes "interleaveLoop F parentTable parentIndex desc index flds i ids = None"
    and "k < length ids"
  shows "\<exists>col targetCol.
           F desc (idx_ColumnIDs index ! (i + k)) = Inr col \<and>
           F parentTable (ids ! k) = Inr targetCol \<and>
           flds ! (i + k) = col_Name col \<and>
           col_Type col = col_Type targetCol \<and>
           idx_ColumnDirections index ! (i + k) = idx_ColumnDirections parentIndex ! (i + k)"
  using assms
proof (induction ids arbitrary: i k)
  case Nil
  then show ?case by simp
next
  case (Cons t rest)
  from Cons.prems(1) obtain targetCol where tc: "F parentTable t = Inr targetCol"
    by (cases "F parentTable t") auto
  from Cons.prems(1) tc obtain col where c: "F desc (idx_ColumnIDs index ! i) = Inr col"
    by (cases "F desc (idx_ColumnIDs index ! i)") auto
  from Cons.prems(1) tc c have here:
    "flds ! i = col_Name col" "col_Type col = col_Type targetCol"
    "idx_ColumnDirections index ! i = idx_ColumnDirections parentIndex ! i"
    and rest: "interleaveLoop F parentTable parentIndex desc index flds (Suc i) rest = None"
    by (auto split: if_splits)
  show ?case
  proof (cases k)
    case 0
    with tc c here show ?thesis by simp
  next
    case (Suc k')
    with Cons.prems(2) have "k' < length rest" by simp
    from Cons.IH [OF rest this] Suc show ?thesis by simp
  qed
qed

text \<open>
  C3. When \<open>addInterleave\<close> succeeds, the declared field list has exactly as many
  entries as the parent's primary index has key columns (and at most as many as the child
  index has); at each of these positions the field is the name of the column that the
  child index has there, the type of that column equals the type of the parent's column
  at the same position, and the two indexes have the same direction there. The child
  index's ancestors are then the parent primary index's ancestors followed by one entry
  with the parent's table id, the id of its primary index, and the number of the parent's
  key columns minus the sum of the earlier ancestors' \<open>SharedPrefixLen\<close>, computed in
  \<open>uint32\<close>; when that sum does not exceed the number of key columns (below \<open>2^32\<close>)
  this is the difference of the natural numbers. The child table's state is \<open>ADD\<close>.
\<close>

theorem addInterleave_success:
  assumes ok: "addInterleave N M F desc index interleave sessionDB = Inr desc'"
    and tn: "N (il_Parent interleave) sessionDB = Inr tn"
    and pt: "M tn True = Inr parentTable"
    and valid: "validRef desc index"
  shows "il_DropBehavior interleave = DropDefault \<and>
    length (il_Fields interleave) = length (idx_ColumnIDs (td_PrimaryIndex parentTable)) \<and>
    length (il_Fields interleave) \<le> length (idx_ColumnIDs (getIndex desc index)) \<and>
    (\<forall>i<length (il_Fields interleave). \<exists>col targetCol.
        F desc (idx_ColumnIDs (getIndex desc index) ! i) = Inr col \<and>
        F parentTable (idx_ColumnIDs (td_PrimaryIndex parentTable) ! i) = Inr targetCol \<and>
        il_Fields interleave ! i = col_Name col \<and>
        col_Type col = col_Type targetCol \<and>
        idx_ColumnDirections (getIndex desc index) ! i =
          idx_ColumnDirections (td_PrimaryIndex parentTable) ! i) \<and>
    idx_Ancestors (getIndex desc' index) =
      idx_Ancestors (td_PrimaryIndex parentTable) @
      [\<lparr>anc_TableID = td_ID parentTable,
        anc_IndexID = idx_ID (td_PrimaryIndex parentTable),
        anc_SharedPrefixLen =
          of_nat (length (idx_ColumnIDs (td_PrimaryIndex parentTable))) -
          sum_list (map anc_SharedPrefixLen (idx_Ancestors (td_PrimaryIndex parentTable)))\<rparr>] \<and>
    (sum_list (map (unat \<circ> anc_SharedPrefixLen) (idx_Ancestors (td_PrimaryIndex parentTable)))
        \<le> length (idx_ColumnIDs (td_PrimaryIndex parentTable)) \<and>
     length (idx_ColumnIDs (td_PrimaryIndex parentTable)) < 2 ^ 32 \<longrightarrow>
       unat (anc_SharedPrefixLen (last (idx_Ancestors (getIndex desc' index)))) =
         length (idx_ColumnIDs (td_PrimaryIndex parentTable)) -
         sum_list (map (unat \<circ> anc_SharedPrefixLen)
                    (idx_Ancestors (td_PrimaryIndex parentTable)))) \<and>
    td_State desc' = ADD"
proof -
  let ?pi = "td_PrimaryIndex parentTable"
  let ?ix = "getIndex desc index"
  let ?fs = "il_Fields interleave"
  from ok have db: "il_DropBehavior interleave = DropDefault"
    by (auto simp: addInterleave_def split: if_splits)
  from ok db tn pt have len1: "length ?fs = length (idx_ColumnIDs ?pi)"
    by (auto simp: addInterleave_def Let_def split: if_splits)
  from ok db tn pt len1 have len2: "length ?fs \<le> length (idx_ColumnIDs ?ix)"
    by (auto simp: addInterleave_def Let_def split: if_splits)
  from ok db tn pt len1 len2 have loop:
    "interleaveLoop F parentTable ?pi desc ?ix ?fs 0 (idx_ColumnIDs ?pi) = None"
    by (auto simp: addInterleave_def Let_def split: if_splits option.splits)
  let ?new = "\<lparr>anc_TableID = td_ID parentTable, anc_IndexID = idx_ID ?pi,
        anc_SharedPrefixLen = of_nat (length (idx_ColumnIDs ?pi)) -
          sum_list (map anc_SharedPrefixLen (idx_Ancestors ?pi))\<rparr>"
  from ok db tn pt len1 len2 loop have d': 
    "desc' = (putIndex desc index (?ix\<lparr>idx_Ancestors := idx_Ancestors ?pi @ [?new]\<rparr>))
               \<lparr>td_State := ADD\<rparr>"
    by (simp add: addInterleave_def Let_def subtract_ancestors)
  have anc: "idx_Ancestors (getIndex desc' index) = idx_Ancestors ?pi @ [?new]"
    by (simp add: d' getIndex_State getIndex_putIndex [OF valid])
  have cols: "\<forall>i<length ?fs. \<exists>col targetCol.
        F desc (idx_ColumnIDs ?ix ! i) = Inr col \<and>
        F parentTable (idx_ColumnIDs ?pi ! i) = Inr targetCol \<and>
        ?fs ! i = col_Name col \<and>
        col_Type col = col_Type targetCol \<and>
        idx_ColumnDirections ?ix ! i = idx_ColumnDirections ?pi ! i"
  proof (intro allI impI)
    fix i assume "i < length ?fs"
    then have "i < length (idx_ColumnIDs ?pi)" by (simp add: len1)
    from interleaveLoop_None [OF loop this]
    show "\<exists>col targetCol.
        F desc (idx_ColumnIDs ?ix ! i) = Inr col \<and>
        F parentTable (idx_ColumnIDs ?pi ! i) = Inr targetCol \<and>
        ?fs ! i = col_Name col \<and>
        col_Type col = col_Type targetCol \<and>
        idx_ColumnDirections ?ix ! i = idx_ColumnDirections ?pi ! i"
      by simp
  qed
  have nat: "sum_list (map (unat \<circ> anc_SharedPrefixLen) (idx_Ancestors ?pi))
        \<le> length (idx_ColumnIDs ?pi) \<and> length (idx_ColumnIDs ?pi) < 2 ^ 32 \<longrightarrow>
       unat (anc_SharedPrefixLen (last (idx_Ancestors (getIndex desc' index)))) =
         length (idx_ColumnIDs ?pi) -
         sum_list (map (unat \<circ> anc_SharedPrefixLen) (idx_Ancestors ?pi))"
  proof
    assume a: "sum_list (map (unat \<circ> anc_SharedPrefixLen) (idx_Ancestors ?pi))
        \<le> length (idx_ColumnIDs ?pi) \<and> length (idx_ColumnIDs ?pi) < 2 ^ 32"
    let ?n = "length (idx_ColumnIDs ?pi)"
    let ?s = "sum_list (map (unat \<circ> anc_SharedPrefixLen) (idx_Ancestors ?pi))"
    have "anc_SharedPrefixLen (last (idx_Ancestors (getIndex desc' index))) =
            of_nat ?n - of_nat ?s"
      by (simp add: anc sum_list_word_of_unat)
    also have "\<dots> = of_nat (?n - ?s)"
      using a by (simp add: of_nat_diff)
    finally have "unat (anc_SharedPrefixLen (last (idx_Ancestors (getIndex desc' index)))) =
            (?n - ?s) mod 2 ^ 32"
      by (simp add: unat_of_nat)
    moreover have "?n - ?s < 2 ^ 32"
      using a by arith
    ultimately show "unat (anc_SharedPrefixLen (last (idx_Ancestors (getIndex desc' index)))) =
            ?n - ?s"
      by (simp only: mod_less)
  qed
  have st: "td_State desc' = ADD"
    by (simp add: d')
  from db len1 len2 cols anc nat st show ?thesis
    by (intro conjI)
qed



theorem addInterleave_success_witness:
  "addInterleave sameName (catalog [parentT]) findColumn childT PrimaryIndexRef
     \<lparr>il_Parent = ''parent'', il_Fields = [''pid''], il_DropBehavior = DropDefault\<rparr> ''db''
   = Inr (childT\<lparr>td_PrimaryIndex := (td_PrimaryIndex childT)
            \<lparr>idx_Ancestors := [\<lparr>anc_TableID = 51, anc_IndexID = 1, anc_SharedPrefixLen = 1\<rparr>]\<rparr>,
            td_State := ADD\<rparr>) \<and>
   td_State (childT\<lparr>td_PrimaryIndex := (td_PrimaryIndex childT)
            \<lparr>idx_Ancestors := [\<lparr>anc_TableID = 51, anc_IndexID = 1, anc_SharedPrefixLen = 1\<rparr>]\<rparr>,
            td_State := ADD\<rparr>) = ADD"
proof -
  define il where "il = \<lparr>il_Parent = ''parent'', il_Fields = [''pid''], il_DropBehavior = DropDefault\<rparr>"
  define d where "d = childT\<lparr>td_PrimaryIndex := (td_PrimaryIndex childT)
            \<lparr>idx_Ancestors := [\<lparr>anc_TableID = 51, anc_IndexID = 1, anc_SharedPrefixLen = 1\<rparr>]\<rparr>,
            td_State := ADD\<rparr>"
  have ok: "addInterleave sameName (catalog [parentT]) findColumn childT PrimaryIndexRef il ''db''
              = Inr d"
    by (simp add: il_def d_def addInterleave_def sameName_def catalog_def findColumn_def parentT_def
          childT_def mkTable_def mkIndex_def mkCol_def zeroIndex_def)
  have tn: "sameName (il_Parent il) ''db'' = Inr ''parent''"
    by (simp add: sameName_def il_def)
  have pt: "catalog [parentT] ''parent'' True = Inr parentT"
    by (simp add: catalog_def parentT_def mkTable_def)
  have v: "validRef childT PrimaryIndexRef" by simp
  note t = addInterleave_success [where N = sameName and M = "catalog [parentT]"
      and F = findColumn and desc = childT and index = PrimaryIndexRef and interleave = il
      and sessionDB = "''db''" and desc' = d and tn = "''parent''" and parentTable = parentT,
      OF ok tn pt v]
  from t have "td_State d = ADD"
    by (elim conjE)
  with ok show ?thesis
    unfolding il_def d_def by (intro conjI)
qed

subsection \<open>Partition tuples\<close>



lemma StripParens_not_Paren: "StripParens e \<noteq> ParenExpr x"
  by (induction e rule: StripParens.induct) simp_all







subsection \<open>Check constraints\<close>


lemma columnSuffix_simps [simp]:
  "columnSuffix [] = []" "columnSuffix [c] = ''_'' @ c"
  by (simp_all add: columnSuffix_def)









subsection \<open>Row counts of CREATE USER and ALTER USER\<close>

text \<open>
  C6, as amended. When the internal executor reports no error, \<open>CREATE USER\<close> succeeds
  exactly when one row was affected, and for any other count fails with the "rows
  affected by user creation; expected exactly one row affected" error.
  \<open>ALTER USER ... WITH PASSWORD\<close> fails in that situation only when no row was affected
  and \<open>IF EXISTS\<close> was not given, with "user ... does not exist"; every other row count
  is accepted. Both leave the executor's row count in the node.
\<close>

theorem user_rows_affected:
  assumes "resolved = Inr (name, hashed)" and "execute name hashed = (rows, None)"
  shows "(fst (createUserNode_Start isViolation execute resolved cn) = None) = (rows = 1) \<and>
    (rows \<noteq> 1 \<longrightarrow>
       fst (createUserNode_Start isViolation execute resolved cn) =
         Some (RowsAffectedByUserCreation rows)) \<and>
    cu_rowsAffected (snd (createUserNode_Start isViolation execute resolved cn)) = rows \<and>
    (fst (alterUserSetPasswordNode_Start execute resolved an) = None) =
       (rows \<noteq> 0 \<or> au_ifExists an) \<and>
    (rows = 0 \<and> \<not> au_ifExists an \<longrightarrow>
       fst (alterUserSetPasswordNode_Start execute resolved an) =
         Some (UserDoesNotExist name)) \<and>
    au_rowsAffected (snd (alterUserSetPasswordNode_Start execute resolved an)) = rows"
  using assms
  by (simp add: createUserNode_Start_def alterUserSetPasswordNode_Start_def)

theorem user_rows_affected_witness:
  "fst (createUserNode_Start (\<lambda>e. False) (\<lambda>u p. (2, None)) (Inr (''alice'', []))
          \<lparr>cu_ifNotExists = False, cu_rowsAffected = 0\<rparr>)
     = Some (RowsAffectedByUserCreation 2) \<and>
   errorMessage (RowsAffectedByUserCreation 2) =
     ''2 rows affected by user creation; expected exactly one row affected'' \<and>
   fst (alterUserSetPasswordNode_Start (\<lambda>u p. (0, None)) (Inr (''alice'', []))
          \<lparr>au_ifExists = False, au_rowsAffected = 0\<rparr>)
     = Some (UserDoesNotExist ''alice'')"
proof -
  note c = user_rows_affected [where resolved = "Inr (''alice'', [])" and name = "''alice''"
      and hashed = "[]" and execute = "\<lambda>u p. (2, None)" and rows = 2
      and isViolation = "\<lambda>e. False" and cn = "\<lparr>cu_ifNotExists = False, cu_rowsAffected = 0\<rparr>",
      OF refl refl, THEN conjunct2, THEN conjunct1]
  note a = user_rows_affected [where resolved = "Inr (''alice'', [])" and name = "''alice''"
      and hashed = "[]" and execute = "\<lambda>u p. (0, None)" and rows = 0
      and an = "\<lparr>au_ifExists = False, au_rowsAffected = 0\<rparr>",
      OF refl refl, THEN conjunct2, THEN conjunct2, THEN conjunct2, THEN conjunct2,
      THEN conjunct1]
  from c have "fst (createUserNode_Start (\<lambda>e. False) (\<lambda>u p. (2, None)) (Inr (''alice'', []))
          \<lparr>cu_ifNotExists = False, cu_rowsAffected = 0\<rparr>)
     = Some (RowsAffectedByUserCreation 2)"
    by simp
  moreover have "errorMessage (RowsAffectedByUserCreation 2) =
     ''2 rows affected by user creation; expected exactly one row affected''"
    by (simp add: showNat.simps digitChar_def)
  moreover from a have "fst (alterUserSetPasswordNode_Start (\<lambda>u p. (0, None))
          (Inr (''alice'', [])) \<lparr>au_ifExists = False, au_rowsAffected = 0\<rparr>)
     = Some (UserDoesNotExist ''alice'')"
    by simp
  ultimately show ?thesis
    by (intro conjI)
qed

text \<open>
  C6 as first stated fails for \<open>ALTER USER ... WITH PASSWORD\<close>: when the executor
  reports two rows and no error, with no \<open>IF EXISTS\<close>, the statement succeeds, while
  \<open>CREATE USER\<close> on the same report fails.
\<close>

theorem alter_user_rows_counterexample:
  "alterUserSetPasswordNode_Start (\<lambda>u p. (2, None)) (Inr (''alice'', []))
     \<lparr>au_ifExists = False, au_rowsAffected = 0\<rparr>
   = (None, \<lparr>au_ifExists = False, au_rowsAffected = 2\<rparr>) \<and>
   createUserNode_Start (\<lambda>e. False) (\<lambda>u p. (2, None)) (Inr (''alice'', []))
     \<lparr>cu_ifNotExists = False, cu_rowsAffected = 0\<rparr>
   = (Some (RowsAffectedByUserCreation 2), \<lparr>cu_ifNotExists = False, cu_rowsAffected = 2\<rparr>)"
  by (simp add: createUserNode_Start_def alterUserSetPasswordNode_Start_def)

subsection \<open>Hoisting is idempotent\<close>

lemma hoistColumn_hoisted:
  "hoistColumn col = (col', appended) \<Longrightarrow>
     ctd_CheckExprs col' = [] \<and> ref_Table (ctd_References col') = None \<and>
     (\<forall>d\<in>set appended. \<forall>c. d \<noteq> ColumnDef c)"
  by (auto simp: hoistColumn_def HasFKConstraint_def Let_def split: if_splits)

lemma hoistColumn_fixed:
  "ctd_CheckExprs col = [] \<Longrightarrow> ref_Table (ctd_References col) = None \<Longrightarrow>
     hoistColumn col = (col, [])"
  by (simp add: hoistColumn_def HasFKConstraint_def)

lemma hoistLoop_hoisted:
  "hoistLoop defs = (defs', appended) \<Longrightarrow>
     (\<forall>d\<in>set defs'. hoisted d) \<and> (\<forall>d\<in>set appended. \<forall>c. d \<noteq> ColumnDef c)"
proof (induction defs arbitrary: defs' appended rule: hoistLoop.induct)
  case 1
  then show ?case by simp
next
  case (2 col rest)
  obtain col' a1 where c: "hoistColumn col = (col', a1)" by (cases "hoistColumn col")
  obtain rest' a2 where r: "hoistLoop rest = (rest', a2)" by (cases "hoistLoop rest")
  from "2.prems" c r have d: "defs' = ColumnDef col' # rest'" "appended = a1 @ a2"
    by simp_all
  from "2.IH" [OF c [symmetric] refl r]
  have "(\<forall>d\<in>set rest'. hoisted d) \<and> (\<forall>d\<in>set a2. \<forall>c. d \<noteq> ColumnDef c)" .
  with hoistColumn_hoisted [OF c] d show ?case
    by (auto simp: hoisted_def)
qed (auto simp: hoisted_def split: prod.splits)

lemma hoistLoop_fixed:
  "\<forall>d\<in>set defs. hoisted d \<Longrightarrow> hoistLoop defs = (defs, [])"
proof (induction defs rule: hoistLoop.induct)
  case 1
  then show ?case by simp
next
  case (2 col rest)
  then show ?case
    by (simp add: hoisted_def hoistColumn_fixed)
qed simp_all

lemma not_column_hoisted: "\<forall>c. d \<noteq> ColumnDef c \<Longrightarrow> hoisted d"
  by (cases d) (simp_all add: hoisted_def)

text \<open>
  C9. Applying \<open>HoistConstraints\<close> to its own result changes nothing: after the first
  run every column has an empty list of inline check expressions and no inline
  \<open>References.Table\<close>, and a run on such definitions appends nothing.
\<close>

theorem HoistConstraints_idempotent:
  "HoistConstraints (HoistConstraints n) = HoistConstraints n \<and>
   (\<forall>d\<in>set (ct_Defs (HoistConstraints n)). hoisted d)"
proof -
  obtain defs appended where h: "hoistLoop (ct_Defs n) = (defs, appended)"
    by (cases "hoistLoop (ct_Defs n)")
  from hoistLoop_hoisted [OF h] have "\<forall>d\<in>set (defs @ appended). hoisted d"
    by (auto intro: not_column_hoisted)
  then have fixed: "hoistLoop (defs @ appended) = (defs @ appended, [])"
    and all: "\<forall>d\<in>set (defs @ appended). hoisted d"
    by (simp_all add: hoistLoop_fixed)
  have first: "HoistConstraints n = n\<lparr>ct_Defs := defs @ appended\<rparr>"
    by (simp add: HoistConstraints_def h)
  have "HoistConstraints (n\<lparr>ct_Defs := defs @ appended\<rparr>) = n\<lparr>ct_Defs := defs @ appended\<rparr>"
    by (simp add: HoistConstraints_def fixed)
  with first all show ?thesis by simp
qed

theorem HoistConstraints_idempotent_witness:
  "ct_Defs (HoistConstraints \<lparr>ct_Table = ''foo'', ct_IfNotExists = False, ct_Defs = fooDefs\<rparr>) =
     [ColumnDef \<lparr>ctd_Name = ''a'', ctd_Type = ''INT'', ctd_PrimaryKey = False,
                ctd_CheckExprs = [],
                ctd_References = \<lparr>ref_Table = None, ref_Col = ''x'', ref_ConstraintName = [],
                                   ref_Actions = \<lparr>ra_Delete = 0, ra_Update = 0\<rparr>\<rparr>\<rparr>,
      ColumnDef \<lparr>ctd_Name = ''b'', ctd_Type = ''INT'', ctd_PrimaryKey = False,
                ctd_CheckExprs = [],
                ctd_References = \<lparr>ref_Table = None, ref_Col = [], ref_ConstraintName = [],
                                   ref_Actions = \<lparr>ra_Delete = 0, ra_Update = 0\<rparr>\<rparr>\<rparr>,
      CheckConstraintDef \<lparr>cc_Name = [], cc_Expr = OtherExpr ''>'' [VarName ''a'', OtherExpr ''0'' []]\<rparr>,
      ForeignKeyConstraintDef \<lparr>fkd_Name = [], fkd_Table = Some ''bar'', fkd_FromCols = [''a''],
                               fkd_ToCols = [''x''],
                               fkd_Actions = \<lparr>ra_Delete = 0, ra_Update = 0\<rparr>\<rparr>] \<and>
   HoistConstraints (HoistConstraints \<lparr>ct_Table = ''foo'', ct_IfNotExists = False, ct_Defs = fooDefs\<rparr>)
     = HoistConstraints \<lparr>ct_Table = ''foo'', ct_IfNotExists = False, ct_Defs = fooDefs\<rparr>"
proof (intro conjI)
  show "ct_Defs (HoistConstraints \<lparr>ct_Table = ''foo'', ct_IfNotExists = False, ct_Defs = fooDefs\<rparr>) =
     [ColumnDef \<lparr>ctd_Name = ''a'', ctd_Type = ''INT'', ctd_PrimaryKey = False,
                ctd_CheckExprs = [],
                ctd_References = \<lparr>ref_Table = None, ref_Col = ''x'', ref_ConstraintName = [],
                                   ref_Actions = \<lparr>ra_Delete = 0, ra_Update = 0\<rparr>\<rparr>\<rparr>,
      ColumnDef \<lparr>ctd_Name = ''b'', ctd_Type = ''INT'', ctd_PrimaryKey = False,
                ctd_CheckExprs = [],
                ctd_References = \<lparr>ref_Table = None, ref_Col = [], ref_ConstraintName = [],
                                   ref_Actions = \<lparr>ra_Delete = 0, ra_Update = 0\<rparr>\<rparr>\<rparr>,
      CheckConstraintDef \<lparr>cc_Name = [], cc_Expr = OtherExpr ''>'' [VarName ''a'', OtherExpr ''0'' []]\<rparr>,
      ForeignKeyConstraintDef \<lparr>fkd_Name = [], fkd_Table = Some ''bar'', fkd_FromCols = [''a''],
                               fkd_ToCols = [''x''],
                               fkd_Actions = \<lparr>ra_Delete = 0, ra_Update = 0\<rparr>\<rparr>]"
    by (simp add: HoistConstraints_def fooDefs_def hoistColumn_def HasFKConstraint_def Let_def)
  show "HoistConstraints (HoistConstraints \<lparr>ct_Table = ''foo'', ct_IfNotExists = False, ct_Defs = fooDefs\<rparr>)
     = HoistConstraints \<lparr>ct_Table = ''foo'', ct_IfNotExists = False, ct_Defs = fooDefs\<rparr>"
    by (rule HoistConstraints_idempotent [THEN conjunct1])
qed

subsection \<open>CREATE INDEX IF NOT EXISTS on an existing index\<close>

text \<open>
  C10. When the statement carries \<open>IF NOT EXISTS\<close> and \<open>FindIndexByName\<close> finds an
  index of the requested name that is not being dropped, \<open>Start\<close> returns no error
  and leaves the node, the table descriptor it points to and the outside state as they
  were: no mutation is added, no job is created, no descriptor is written, no event is
  recorded and the schema changer is not notified.
\<close>

theorem createIndex_if_not_exists_noop:
  assumes "io_FindIndexByName ops (cin_tableDesc n) (ci_Name (cin_n n)) = Inr (idx, False)"
    and "ci_IfNotExists (cin_n n)"
  shows "createIndexNode_Start ops params n w = (None, n, w)"
  using assms by (simp add: createIndexNode_Start_def)

theorem createIndex_if_not_exists_noop_witness:
  "createIndexNode_Start traceOps someParams (createIdx True) emptyTrace =
     (None, createIdx True, emptyTrace) \<and>
   td_Mutations (cin_tableDesc (createIdx True)) = [] \<and>
   (\<exists>n'. createIndexNode_Start traceOps someParams (createIdx False) emptyTrace =
     (None, n',
      \<lparr>tr_jobs = [(60, ''CREATE INDEX t_a_b_idx'')],
       tr_written = [cin_tableDesc n'],
       tr_events = [\<lparr>ev_EventType = ''EventLogCreateIndex'', ev_TargetID = 60, ev_ReportingID = 1,
                     ev_TableName = ''t'', ev_IndexName = ''t_a_b_idx'',
                     ev_Statement = ''CREATE INDEX t_a_b_idx'', ev_User = ''root'',
                     ev_MutationID = 1\<rparr>],
       tr_notified = [(60, 1)]\<rparr>) \<and>
     length (td_Mutations (cin_tableDesc n')) = 1)"
proof (intro conjI)
  have f: "io_FindIndexByName traceOps (cin_tableDesc (createIdx True))
             (ci_Name (cin_n (createIdx True))) =
           Inr (mkIndex ''t_a_b_idx'' 2 False [''a'', ''b''] [1, 2], False)"
    by (simp add: traceOps_def findIndexByName_def createIdx_def tblT_def mkTable_def
          mkIndex_def zeroIndex_def)
  have i: "ci_IfNotExists (cin_n (createIdx True))"
    by (simp add: createIdx_def)
  show "createIndexNode_Start traceOps someParams (createIdx True) emptyTrace =
     (None, createIdx True, emptyTrace)"
    by (rule createIndex_if_not_exists_noop [OF f i])
  show "td_Mutations (cin_tableDesc (createIdx True)) = []"
    by (simp add: createIdx_def tblT_def mkTable_def)
  show "\<exists>n'. createIndexNode_Start traceOps someParams (createIdx False) emptyTrace =
     (None, n',
      \<lparr>tr_jobs = [(60, ''CREATE INDEX t_a_b_idx'')],
       tr_written = [cin_tableDesc n'],
       tr_events = [\<lparr>ev_EventType = ''EventLogCreateIndex'', ev_TargetID = 60, ev_ReportingID = 1,
                     ev_TableName = ''t'', ev_IndexName = ''t_a_b_idx'',
                     ev_Statement = ''CREATE INDEX t_a_b_idx'', ev_User = ''root'',
                     ev_MutationID = 1\<rparr>],
       tr_notified = [(60, 1)]\<rparr>) \<and>
     length (td_Mutations (cin_tableDesc n')) = 1"
    by (simp add: createIndexNode_Start_def addIndex_def interleaveStep_def publishStep_def
          traceOps_def findIndexByName_def createIdx_def someParams_def emptyTrace_def
          tblT_def mkTable_def mkIndex_def zeroIndex_def Let_def)
qed

end
